theory Spec2Isabelle
  imports Complex_Main
begin

section \<open>ComprehensiveDeltaStrategy: a shallow embedding\<close>

text \<open>
  The strategy of \<^verbatim>\<open>ComprehensiveDeltaStrategy.cpp\<close> is embedded function by function.
  The source computes in single-precision \<^verbatim>\<open>float\<close>; the embedding computes in
  \<^typ>\<open>real\<close>, so every statement below is about the arithmetic the source writes down,
  evaluated exactly (no rounding, no NaN, no infinities). C arrays are lists read with an
  explicit bounds check where the source computes the index, calls into the kernel
  (probe, trim store, arm solution, file system, random numbers) are inputs of the step
  that makes them, and a \<^verbatim>\<open>return false\<close> is a value of the result.
\<close>

subsection \<open>Constants and helpers\<close>

text \<open>
  Modelled from the spec: the header that defines \<^verbatim>\<open>DM_GRID_DIMENSION\<close> and
  \<^verbatim>\<open>DM_GRID_ELEMENTS\<close> is not among the sources. The grid is N by N with N odd
  ("e.g. 5 or 7"), its end-to-end scenario is the 5 by 5 grid, and the source's own notes
  say the grid is 5x5 ("Increase probing grid size to 7x7, rather than 5x5").
\<close>

definition DM_GRID_DIMENSION :: nat where
  "DM_GRID_DIMENSION = 5"

definition DM_GRID_ELEMENTS :: nat where
  "DM_GRID_ELEMENTS = DM_GRID_DIMENSION * DM_GRID_DIMENSION"

text \<open>\<^verbatim>\<open>clamp(n, lower, upper)\<close> is \<^verbatim>\<open>std::max(lower, std::min(n, upper))\<close>.\<close>

definition clamp :: "real \<Rightarrow> real \<Rightarrow> real \<Rightarrow> real" where
  "clamp n lower upper = max lower (min n upper)"

text \<open>\<^verbatim>\<open>std::minmax({a, b, c})\<close>: \<^verbatim>\<open>first\<close> is the least, \<^verbatim>\<open>second\<close> the greatest.\<close>

definition minmax3 :: "real \<Rightarrow> real \<Rightarrow> real \<Rightarrow> real \<times> real" where
  "minmax3 a b c = (min a (min b c), max a (max b c))"

definition minmax4 :: "real \<Rightarrow> real \<Rightarrow> real \<Rightarrow> real \<Rightarrow> real \<times> real" where
  "minmax4 a b c d = (min a (min b (min c d)), max a (max b (max c d)))"

subsection \<open>The probing grid\<close>

text \<open>
  Grid points are classified with the tags of \<^verbatim>\<open>active_point[]\<close>, and the print surface
  has one of two shapes.
\<close>

datatype test_point_type = TP_CENTER | TP_ACTIVE | TP_ACTIVE_NEIGHBOR | TP_INACTIVE

datatype surface_shape_type = PSS_CIRCLE | PSS_SQUARE

text \<open>
  The grid part of the strategy's state: the members \<^verbatim>\<open>test_point\<close> and \<^verbatim>\<open>active_point\<close>
  (arrays of fixed size \<^verbatim>\<open>DM_GRID_ELEMENTS\<close>), \<^verbatim>\<open>tower_point_idx\<close> (indexed
  \<^verbatim>\<open>TP_CTR, TP_X, TP_Y, TP_Z\<close>) and the three anchor points \<^verbatim>\<open>tri_points\<close> of the tilt
  plane.
\<close>

record grid =
  test_point :: "(real \<times> real) list"
  active_point :: "test_point_type list"
  tower_point_idx :: "nat \<times> nat \<times> nat \<times> nat"
  tri_points :: "(real \<times> real \<times> real) \<times> (real \<times> real \<times> real) \<times> (real \<times> real \<times> real)"

text \<open>\<^verbatim>\<open>distance2D\<close>: \<^verbatim>\<open>sqrt(pow(second[X] - first[X], 2) + pow(second[Y] - first[Y], 2))\<close>.\<close>

definition distance2D :: "real \<times> real \<Rightarrow> real \<times> real \<Rightarrow> real" where
  "distance2D first second = sqrt ((fst second - fst first)\<^sup>2 + (snd second - snd first)\<^sup>2)"

text \<open>
  \<^verbatim>\<open>find_nearest_test_point\<close>: a scan of all \<^verbatim>\<open>DM_GRID_ELEMENTS\<close> points that starts from
  \<^verbatim>\<open>lowest = 999\<close>, \<^verbatim>\<open>lowest_idx = 0\<close>.
\<close>

definition fntp_step :: "grid \<Rightarrow> real \<times> real \<Rightarrow> nat \<Rightarrow> real \<times> nat \<Rightarrow> real \<times> nat" where
  "fntp_step g pos i acc =
    (case acc of (lowest, lowest_idx) \<Rightarrow>
      (let dist = distance2D pos (test_point g ! i)
       in if active_point g ! i = TP_ACTIVE \<or> active_point g ! i = TP_CENTER
          then (if dist < lowest then (dist, i) else (lowest, lowest_idx))
          else (lowest, lowest_idx)))"

definition find_nearest_test_point :: "grid \<Rightarrow> real \<times> real \<Rightarrow> nat" where
  "find_nearest_test_point g pos =
    snd (fold (fntp_step g pos) [0..<DM_GRID_ELEMENTS] (999, 0))"

text \<open>
  \<^verbatim>\<open>init_test_points\<close>. The first pair of loops counts with floats,
  \<^verbatim>\<open>for(y = probe_radius; y >= -probe_radius; y -= point_spacing)\<close> around
  \<^verbatim>\<open>for(x = -probe_radius; x <= probe_radius; x += point_spacing)\<close>, and writes
  \<^verbatim>\<open>test_point[n++]\<close>; a write past the end of the array is the result \<open>None\<close>, and so is a
  loop that never ends.
\<close>

function init_points_x ::
  "real \<Rightarrow> real \<Rightarrow> real \<Rightarrow> real \<Rightarrow> nat \<Rightarrow> (real \<times> real) list \<Rightarrow> (nat \<times> (real \<times> real) list) option" where
  "init_points_x probe_radius point_spacing y x n tp =
    (if x \<le> probe_radius
     then (if n < DM_GRID_ELEMENTS \<and> n < length tp
           then init_points_x probe_radius point_spacing y (x + point_spacing) (n + 1)
                  (tp[n := (x, y)])
           else None)
     else Some (n, tp))"
  by pat_completeness auto
termination
  by (relation "measure (\<lambda>(probe_radius, point_spacing, y, x, n, tp). DM_GRID_ELEMENTS - n)")
    auto

declare init_points_x.simps [simp del]

partial_function (option) init_points_y ::
  "real \<Rightarrow> real \<Rightarrow> real \<Rightarrow> nat \<Rightarrow> (real \<times> real) list \<Rightarrow> (nat \<times> (real \<times> real) list) option" where
  "init_points_y probe_radius point_spacing y n tp =
    (if y \<ge> - probe_radius
     then (case init_points_x probe_radius point_spacing y (- probe_radius) n tp of
             None \<Rightarrow> None
           | Some r \<Rightarrow> init_points_y probe_radius point_spacing (y - point_spacing) (fst r) (snd r))
     else Some (n, tp))"

text \<open>
  The classification of one grid position \<^verbatim>\<open>(x, y)\<close> (column and row, counted by the
  source in floats from 0), at \<^verbatim>\<open>dm_pos = (y * DM_GRID_DIMENSION) + x\<close>. The divisor of
  \<^verbatim>\<open>neighboring_probe_radius\<close> is the integer quotient \<^verbatim>\<open>(DM_GRID_DIMENSION - 1) / 2\<close>.
\<close>

definition neighboring_probe_radius :: "real \<Rightarrow> real" where
  "neighboring_probe_radius probe_radius =
     probe_radius + (probe_radius / real ((DM_GRID_DIMENSION - 1) div 2))"

definition classify_point :: "real \<Rightarrow> surface_shape_type \<Rightarrow> grid \<Rightarrow> nat \<Rightarrow> nat \<Rightarrow> test_point_type" where
  "classify_point probe_radius surface_shape g y x =
    (let origin = (0, 0); dm_pos = (y * DM_GRID_DIMENSION) + x
     in case surface_shape of
          PSS_CIRCLE \<Rightarrow>
            (if distance2D origin (test_point g ! dm_pos) \<le> probe_radius
             then TP_ACTIVE
             else if distance2D origin (test_point g ! dm_pos) \<le> neighboring_probe_radius probe_radius
                     \<and> y \<noteq> 0
                     \<and> y \<noteq> (DM_GRID_DIMENSION - 1)
                     \<and> int y \<noteq> - int (DM_GRID_DIMENSION - 1)
                  then TP_ACTIVE_NEIGHBOR
                  else TP_INACTIVE)
        | PSS_SQUARE \<Rightarrow> TP_ACTIVE)"

definition determine_active_points :: "real \<Rightarrow> surface_shape_type \<Rightarrow> grid \<Rightarrow> grid" where
  "determine_active_points probe_radius surface_shape g =
    fold (\<lambda>y g1.
       fold (\<lambda>x g2.
          g2\<lparr>active_point := (active_point g2)
                [(y * DM_GRID_DIMENSION) + x := classify_point probe_radius surface_shape g2 y x]\<rparr>)
         [0..<DM_GRID_DIMENSION] g1)
      [0..<DM_GRID_DIMENSION] g"

definition init_test_points :: "real \<Rightarrow> surface_shape_type \<Rightarrow> grid \<Rightarrow> grid option" where
  "init_test_points probe_radius surface_shape g =
    (let point_spacing = (probe_radius * 2) / real (DM_GRID_DIMENSION - 1)
     in case init_points_y probe_radius point_spacing probe_radius 0 (test_point g) of
          None \<Rightarrow> None
        | Some (n, tp) \<Rightarrow>
           (let origin = (0, 0);
                g1 = determine_active_points probe_radius surface_shape (g\<lparr>test_point := tp\<rparr>);
                g2 = g1\<lparr>active_point :=
                        (active_point g1)[find_nearest_test_point g1 origin := TP_CENTER]\<rparr>;
                xDeg = 866025 / 1000000;
                yDeg = 1 / 2;
                idx_CTR = find_nearest_test_point g2 (0, 0);
                idx_X = find_nearest_test_point g2 (- xDeg * probe_radius, - yDeg * probe_radius);
                idx_Y = find_nearest_test_point g2 (xDeg * probe_radius, - yDeg * probe_radius);
                idx_Z = find_nearest_test_point g2 (0, probe_radius)
            in Some (g2\<lparr>tower_point_idx := (idx_CTR, idx_X, idx_Y, idx_Z),
                        tri_points := ((fst (tp ! idx_X), snd (tp ! idx_X), 0),
                                       (fst (tp ! idx_Y), snd (tp ! idx_Y), 0),
                                       (fst (tp ! idx_Z), snd (tp ! idx_Z), 0))\<rparr>)))"

subsection \<open>The energy of a set of depths\<close>

text \<open>
  \<^verbatim>\<open>calc_energy(float cartesian[DM_GRID_ELEMENTS][3])\<close> returns \<^verbatim>\<open>mu / i\<close>, the sum of
  \<^verbatim>\<open>fabs(cartesian[stats][Z])\<close> over the points tagged \<^verbatim>\<open>TP_ACTIVE\<close> divided by their
  number. With no such point the quotient is 0 / 0, which is not a number: \<open>None\<close>.
\<close>

definition energy_step :: "grid \<Rightarrow> (real \<times> real \<times> real) list \<Rightarrow> nat \<Rightarrow> real \<times> nat \<Rightarrow> real \<times> nat" where
  "energy_step g cartesian stats acc =
    (case acc of (mu, i) \<Rightarrow>
       if active_point g ! stats = TP_ACTIVE
       then (mu + \<bar>snd (snd (cartesian ! stats))\<bar>, i + 1)
       else (mu, i))"

definition calc_energy :: "grid \<Rightarrow> (real \<times> real \<times> real) list \<Rightarrow> real option" where
  "calc_energy g cartesian =
    (case fold (energy_step g cartesian) [0..<DM_GRID_ELEMENTS] (0, 0) of
       (mu, i) \<Rightarrow> if i = 0 then None else Some (mu / real i))"

text \<open>
  The overload on \<^verbatim>\<open>_cds_depths_t points[]\<close> copies \<^verbatim>\<open>points[i].rel\<close> beside the grid
  coordinates and calls the one above. A depth is the pair (abs, rel).
\<close>

definition calc_energy_depths :: "grid \<Rightarrow> (real \<times> real) list \<Rightarrow> real option" where
  "calc_energy_depths g points =
    calc_energy g
      (map (\<lambda>i. (fst (test_point g ! i), snd (test_point g ! i), snd (points ! i)))
         [0..<DM_GRID_ELEMENTS])"

subsection \<open>The surface transform: Z correction for a target position\<close>

text \<open>
  The struct \<^verbatim>\<open>surface_transform\<close>: the depth map (allocated with
  \<^verbatim>\<open>DM_GRID_ELEMENTS\<close> floats, the empty list while it is \<^verbatim>\<open>nullptr\<close>), the three enabling
  flags, and the tilt plane as its unit normal and offset \<^verbatim>\<open>d\<close>.
\<close>

record surface_transform_t =
  st_depth :: "real list"
  st_depth_enabled :: bool
  st_have_depth_map :: bool
  st_plane_enabled :: bool
  st_active :: bool
  st_have_normal :: bool
  st_normal :: "real \<times> real \<times> real"
  st_d :: real

text \<open>
  \<^verbatim>\<open>handleConfig\<close> sets the scaler that maps Cartesian coordinates to array coordinates:
  \<^verbatim>\<open>(DM_GRID_DIMENSION - 1) / (probe_radius * 2)\<close>.
\<close>

definition cartesian_to_array_scaler :: "real \<Rightarrow> real" where
  "cartesian_to_array_scaler probe_radius = real (DM_GRID_DIMENSION - 1) / (probe_radius * 2)"

text \<open>
  The first half of the depth branch of \<^verbatim>\<open>get_adjust_z\<close>: the target is clamped to the
  probe radius and mapped to the array position \<^verbatim>\<open>(bili.array_x, bili.array_y)\<close>, Y inverted.
\<close>

definition bili_array_pos :: "real \<Rightarrow> real \<Rightarrow> real \<Rightarrow> real \<Rightarrow> real \<times> real" where
  "bili_array_pos probe_radius scaler targetX targetY =
    (let targetX' = clamp targetX (- probe_radius) probe_radius;
         targetY' = clamp targetY (- probe_radius) probe_radius;
         array_x = (targetX' - - probe_radius) * scaler;
         array_y = (- targetY' - - probe_radius) * scaler
     in (array_x, array_y))"

text \<open>
  The bounding box \<^verbatim>\<open>x1 = floor(array_x)\<close>, \<^verbatim>\<open>y1 = floor(array_y)\<close>, \<^verbatim>\<open>x2 = x1 + 1\<close>,
  \<^verbatim>\<open>y2 = y1 + 1\<close> and the four array indices
  \<^verbatim>\<open>(st_Q11, st_Q12, st_Q21, st_Q22)\<close> of its corners.
\<close>

definition bili_indices :: "real \<Rightarrow> real \<Rightarrow> real \<Rightarrow> real \<Rightarrow> int \<times> int \<times> int \<times> int" where
  "bili_indices probe_radius scaler targetX targetY =
    (case bili_array_pos probe_radius scaler targetX targetY of (array_x, array_y) \<Rightarrow>
      (let x1 = \<lfloor>array_x\<rfloor>; y1 = \<lfloor>array_y\<rfloor>; x2 = x1 + 1; y2 = y1 + 1
       in ((y1 * int DM_GRID_DIMENSION) + x1,
           (y2 * int DM_GRID_DIMENSION) + x1,
           (y1 * int DM_GRID_DIMENSION) + x2,
           (y2 * int DM_GRID_DIMENSION) + x2)))"

text \<open>
  A read of \<^verbatim>\<open>surface_transform.depth[i]\<close>. The source does not check the index. A read
  outside the \<^verbatim>\<open>DM_GRID_ELEMENTS\<close> allocated floats is recorded as \<open>None\<close>: the firmware
  goes on with whatever lies behind the array, which is no part of this model.
\<close>

definition depth_read :: "surface_transform_t \<Rightarrow> int \<Rightarrow> real option" where
  "depth_read st i =
    (if 0 \<le> i \<and> i < int DM_GRID_ELEMENTS \<and> nat i < length (st_depth st)
     then Some (st_depth st ! nat i) else None)"

text \<open>
  \<^verbatim>\<open>get_adjust_z\<close>, with its reads of the depth map checked: the result is \<open>None\<close> when
  one of the four reads falls outside the depth map, and otherwise the value of the
  source's expressions in exact arithmetic. So \<open>None\<close> says that the call read out of
  bounds, not what the firmware returned, and a \<open>Some\<close> says nothing about the last bits
  of the float that the firmware computes. The plane term divides by \<^verbatim>\<open>normal[Z]\<close>; a zero
  there gives no number, which is \<open>None\<close> as well.
\<close>

definition get_adjust_z ::
  "real \<Rightarrow> real \<Rightarrow> surface_transform_t \<Rightarrow> real \<Rightarrow> real \<Rightarrow> real option" where
  "get_adjust_z probe_radius scaler st targetX targetY =
    (let plane =
          (if st_plane_enabled st \<and> st_active st
           then (case st_normal st of (nx, ny, nz) \<Rightarrow>
                   if nz = 0 then None
                   else Some (((- nx * targetX) - (ny * targetY) - st_d st) / nz))
           else Some 0)
     in case plane of
          None \<Rightarrow> None
        | Some st_z_offset \<Rightarrow>
           if st_depth_enabled st \<and> st_active st
           then
             (case bili_array_pos probe_radius scaler targetX targetY of (array_x, array_y) \<Rightarrow>
              case bili_indices probe_radius scaler targetX targetY of
                (st_Q11, st_Q12, st_Q21, st_Q22) \<Rightarrow>
              case (depth_read st st_Q11, depth_read st st_Q12,
                    depth_read st st_Q21, depth_read st st_Q22) of
                (Some Q11, Some Q12, Some Q21, Some Q22) \<Rightarrow>
                  (let x1 = real_of_int \<lfloor>array_x\<rfloor>; y1 = real_of_int \<lfloor>array_y\<rfloor>;
                       x2 = x1 + 1; y2 = y1 + 1;
                       divisor = (x2 - x1) * (y2 - y1);
                       first_term0 = Q11 / divisor;
                       first_term1 = Q21 / divisor;
                       first_term2 = Q12 / divisor;
                       first_term3 = Q22 / divisor;
                       x2_minus_x = x2 - array_x;
                       x_minus_x1 = array_x - x1;
                       y2_minus_y = y2 - array_y;
                       y_minus_y1 = array_y - y1;
                       result =
                         first_term0 * x2_minus_x * y2_minus_y +
                         first_term1 * x_minus_x1 * y2_minus_y +
                         first_term2 * x2_minus_x * y_minus_y1 +
                         first_term3 * x_minus_x1 * y_minus_y1
                   in Some (st_z_offset + result))
              | _ \<Rightarrow> None)
           else Some st_z_offset)"

subsection \<open>M667: virtual shimming and depth correction\<close>

text \<open>
  Modelled from the spec: the class \<^verbatim>\<open>Vector3\<close> is not among the sources. The tilt plane is
  computed from its three anchor points by two edge vectors, their cross product, the
  unit normal, and the plane offset \<open>d = -(normal \<cdot> anchor1)\<close>.
\<close>

definition vec_sub :: "real \<times> real \<times> real \<Rightarrow> real \<times> real \<times> real \<Rightarrow> real \<times> real \<times> real" where
  "vec_sub a b = (case a of (a0, a1, a2) \<Rightarrow> case b of (b0, b1, b2) \<Rightarrow>
     (a0 - b0, a1 - b1, a2 - b2))"

definition vec_cross :: "real \<times> real \<times> real \<Rightarrow> real \<times> real \<times> real \<Rightarrow> real \<times> real \<times> real" where
  "vec_cross a b = (case a of (a0, a1, a2) \<Rightarrow> case b of (b0, b1, b2) \<Rightarrow>
     (a1 * b2 - a2 * b1, a2 * b0 - a0 * b2, a0 * b1 - a1 * b0))"

definition vec_unit :: "real \<times> real \<times> real \<Rightarrow> real \<times> real \<times> real" where
  "vec_unit a = (case a of (a0, a1, a2) \<Rightarrow>
     (let mag = sqrt (a0 * a0 + a1 * a1 + a2 * a2) in (a0 / mag, a1 / mag, a2 / mag)))"

definition vec_mul :: "real \<times> real \<times> real \<Rightarrow> real \<times> real \<times> real \<Rightarrow> real \<times> real \<times> real" where
  "vec_mul a b = (case a of (a0, a1, a2) \<Rightarrow> case b of (b0, b1, b2) \<Rightarrow>
     (a0 * b0, a1 * b1, a2 * b2))"

text \<open>\<^verbatim>\<open>set_adjust_function(on)\<close> sets the master flag (and hooks the kernel's transform).\<close>

definition set_adjust_function :: "bool \<Rightarrow> surface_transform_t \<Rightarrow> surface_transform_t" where
  "set_adjust_function on st = st\<lparr>st_active := on\<rparr>"

text \<open>
  \<^verbatim>\<open>set_virtual_shimming(x, y, z)\<close> stores the three Z heights in \<^verbatim>\<open>tri_points\<close> and
  recomputes the plane; all three zero is the special case with normal (0, 0, 1).
\<close>

definition set_virtual_shimming ::
  "real \<Rightarrow> real \<Rightarrow> real \<Rightarrow> grid \<times> surface_transform_t \<Rightarrow> grid \<times> surface_transform_t" where
  "set_virtual_shimming x y z s =
    (case s of (g, st) \<Rightarrow>
     case tri_points g of ((p1x, p1y, p1z), (p2x, p2y, p2z), (p3x, p3y, p3z)) \<Rightarrow>
      (let v1 = (p1x, p1y, x); v2 = (p2x, p2y, y); v3 = (p3x, p3y, z);
           g' = g\<lparr>tri_points := (v1, v2, v3)\<rparr>
       in if x = 0 \<and> y = 0 \<and> z = 0
          then (g', st\<lparr>st_normal := (0, 0, 1), st_d := 0, st_have_normal := True\<rparr>)
          else
            (let ab = vec_sub v1 v2;
                 ac = vec_sub v1 v3;
                 cross_product = vec_cross ab ac;
                 normal = vec_unit cross_product;
                 dv = vec_mul normal v1;
                 st1 = st\<lparr>st_normal := normal,
                          st_d := - fst dv - fst (snd dv) - snd (snd dv),
                          st_plane_enabled := True\<rparr>
             in (g', (set_adjust_function True st1)\<lparr>st_have_normal := True\<rparr>))))"

text \<open>
  \<^verbatim>\<open>initDepthMapRAM\<close>: the allocation on AHB0 either fails (an input of the model), leaving
  no depth map, or gives \<^verbatim>\<open>DM_GRID_ELEMENTS\<close> zeroed floats.
\<close>

definition initDepthMapRAM :: "bool \<Rightarrow> surface_transform_t \<Rightarrow> bool \<times> surface_transform_t" where
  "initDepthMapRAM alloc_ok st =
    (if \<not> alloc_ok then (False, st\<lparr>st_depth := []\<rparr>)
     else (True, st\<lparr>st_depth := replicate DM_GRID_ELEMENTS 0\<rparr>))"

text \<open>
  The read loop over \<^verbatim>\<open>/sd/dm_surface_transform\<close>. Its input is the sequence of buffers
  that \<^verbatim>\<open>fgets\<close> returns. Each has its trailing newline chopped, a buffer that starts with
  \<^verbatim>\<open>;\<close> is skipped, and while \<^verbatim>\<open>i < DM_GRID_ELEMENTS\<close> the buffer is parsed: a value
  strictly between -5 and 5 is stored at \<^verbatim>\<open>depth[i]\<close> and counted, any other value stops
  the load. Once \<^verbatim>\<open>DM_GRID_ELEMENTS\<close> values are in, further buffers are read from the
  file but neither parsed nor counted. \<^verbatim>\<open>atof\<close> and \<^verbatim>\<open>strtof\<close> belong to the C library and
  are parameters. The result is: whether the loop ran to the end of the file, the count
  \<^verbatim>\<open>i\<close>, and the depth map.
\<close>

definition chop_newline :: "string \<Rightarrow> string" where
  "chop_newline buf = takeWhile (\<lambda>c. c \<noteq> CHR 0x0A) buf"

definition is_comment :: "string \<Rightarrow> bool" where
  "is_comment buf = (case buf of [] \<Rightarrow> False | c # cs \<Rightarrow> c = CHR '';'')"

fun read_depth_map ::
  "(string \<Rightarrow> real) \<Rightarrow> (string \<Rightarrow> real) \<Rightarrow> string list \<Rightarrow> nat \<Rightarrow> real list
     \<Rightarrow> bool \<times> nat \<times> real list" where
  "read_depth_map atof strtof [] i depth = (True, i, depth)"
| "read_depth_map atof strtof (raw # rest) i depth =
    (let buf = chop_newline raw
     in if is_comment buf then read_depth_map atof strtof rest i depth
        else if i < DM_GRID_ELEMENTS
        then (let fval = atof buf
              in if fval > - 5 \<and> fval < 5
                 then read_depth_map atof strtof rest (i + 1) (depth[i := strtof buf])
                 else (False, i, depth))
        else read_depth_map atof strtof rest i depth)"

text \<open>
  A G-code line maps its letters to their values: \<^verbatim>\<open>has_letter\<close> and \<^verbatim>\<open>get_value\<close>. A
  float assigned to a \<^verbatim>\<open>bool\<close> is true when it is not zero.
\<close>

type_synonym gcode = "char \<Rightarrow> real option"

definition has_letter :: "gcode \<Rightarrow> char \<Rightarrow> bool" where
  "has_letter gc c = (gc c \<noteq> None)"

definition get_value :: "gcode \<Rightarrow> char \<Rightarrow> real" where
  "get_value gc c = (case gc c of None \<Rightarrow> 0 | Some v \<Rightarrow> v)"

text \<open>
  The \<^verbatim>\<open>E\<close> block of \<^verbatim>\<open>handle_shimming_and_depth_correction\<close>. A first component
  \<open>False\<close> is a \<^verbatim>\<open>return false\<close> in the middle of the block; it comes with the state
  left behind.
\<close>

definition depth_map_block ::
  "gcode \<Rightarrow> bool \<Rightarrow> string list option \<Rightarrow> (string \<Rightarrow> real) \<Rightarrow> (string \<Rightarrow> real)
     \<Rightarrow> real \<Rightarrow> real \<Rightarrow> surface_transform_t \<Rightarrow> bool \<times> surface_transform_t" where
  "depth_map_block gc alloc_ok file atof strtof probe_offset_x probe_offset_y st =
    (if probe_offset_x = 0 \<and> probe_offset_y = 0
     then
       (if st_have_depth_map st
        then (True, st\<lparr>st_depth_enabled := (get_value gc CHR ''E'' \<noteq> 0)\<rparr>)
        else
          (case initDepthMapRAM alloc_ok st of (ram_ok, st1) \<Rightarrow>
            if \<not> ram_ok then (False, st1)
            else
              (case file of
                 None \<Rightarrow> (True, st1)
               | Some bufs \<Rightarrow>
                  (case read_depth_map atof strtof bufs 0 (st_depth st1) of
                     (finished, i, depth') \<Rightarrow>
                       if \<not> finished
                       then (False, st1\<lparr>st_depth := depth', st_depth_enabled := False\<rparr>)
                       else if i \<noteq> DM_GRID_ELEMENTS
                       then (True, st1\<lparr>st_depth := depth', st_have_depth_map := False,
                                        st_depth_enabled := False\<rparr>)
                       else
                         (let st2 = st1\<lparr>st_depth := depth',
                                        st_depth_enabled := (get_value gc CHR ''E'' \<noteq> 0)\<rparr>
                          in if st_depth_enabled st2 = True
                             then (True, set_adjust_function True (st2\<lparr>st_depth_enabled := True\<rparr>))
                             else (True, st2\<lparr>st_depth_enabled := False\<rparr>))))))
     else (True, st))"

text \<open>
  The blocks of \<^verbatim>\<open>handle_shimming_and_depth_correction\<close> before and after the \<^verbatim>\<open>E\<close>
  block: the triangle points \<^verbatim>\<open>A B C\<close> with shimming \<^verbatim>\<open>D\<close>, and the global switch
  \<^verbatim>\<open>Z\<close>.
\<close>

definition shimming_block :: "gcode \<Rightarrow> grid \<times> surface_transform_t \<Rightarrow> grid \<times> surface_transform_t" where
  "shimming_block gc s =
    (case s of (g0, st0) \<Rightarrow>
     case tri_points g0 of ((p1x, p1y, p1z), (p2x, p2y, p2z), (p3x, p3y, p3z)) \<Rightarrow>
      (let za = (if has_letter gc CHR ''A'' then get_value gc CHR ''A'' else p1z);
           zb = (if has_letter gc CHR ''B'' then get_value gc CHR ''B'' else p2z);
           zc = (if has_letter gc CHR ''C'' then get_value gc CHR ''C'' else p3z);
           g1 = g0\<lparr>tri_points := ((p1x, p1y, za), (p2x, p2y, zb), (p3x, p3y, zc))\<rparr>;
           st1 = (if has_letter gc CHR ''D''
                  then st0\<lparr>st_plane_enabled := (get_value gc CHR ''D'' \<noteq> 0)\<rparr> else st0)
       in if st_plane_enabled st1
          then (case set_virtual_shimming za zb zc (g1, st1) of
                  (g', st') \<Rightarrow> (g', set_adjust_function True st'))
          else (g1, st1)))"

definition global_switch_block :: "gcode \<Rightarrow> surface_transform_t \<Rightarrow> surface_transform_t" where
  "global_switch_block gc st =
    (if has_letter gc CHR ''Z''
     then (if get_value gc CHR ''Z'' \<noteq> 0
           then (if st_depth_enabled st \<or> st_plane_enabled st
                 then set_adjust_function True st else st)
           else set_adjust_function False st)
     else st)"

text \<open>\<^verbatim>\<open>handle_shimming_and_depth_correction\<close> (M667).\<close>

definition handle_shimming_and_depth_correction ::
  "gcode \<Rightarrow> bool \<Rightarrow> string list option \<Rightarrow> (string \<Rightarrow> real) \<Rightarrow> (string \<Rightarrow> real)
     \<Rightarrow> real \<Rightarrow> real \<Rightarrow> grid \<times> surface_transform_t \<Rightarrow> bool \<times> grid \<times> surface_transform_t" where
  "handle_shimming_and_depth_correction gc alloc_ok file atof strtof probe_offset_x probe_offset_y s =
    (case shimming_block gc s of (g2, st2) \<Rightarrow>
      (case (if has_letter gc CHR ''E''
             then depth_map_block gc alloc_ok file atof strtof probe_offset_x probe_offset_y st2
             else (True, st2)) of
         (ok, st3) \<Rightarrow>
           if \<not> ok then (False, g2, st3)
           else (True, g2, global_switch_block gc st3)))"

subsection \<open>Heuristic calibration: the directed binary search\<close>

text \<open>
  \<^verbatim>\<open>find_optimal_config\<close>. The argument \<open>energy\<close> stands for the pair of calls
  \<^verbatim>\<open>test_function(v, true)\<close> and \<^verbatim>\<open>simulate_FK_and_get_energy(...)\<close>: the energy that the
  arm solution gives when the tested parameter is set to \<open>v\<close>. The loop runs
  \<^verbatim>\<open>for(j = 0; j < 250; j++)\<close> and leaves by \<^verbatim>\<open>break\<close> once \<^verbatim>\<open>max - min <= target\<close>; the
  result of the loop is the final \<^verbatim>\<open>j\<close> with the final bounds.
\<close>

function binsearch_loop ::
  "(real \<Rightarrow> real) \<Rightarrow> real \<Rightarrow> real \<Rightarrow> nat \<Rightarrow> real \<Rightarrow> real \<Rightarrow> nat \<times> real \<times> real" where
  "binsearch_loop energy binsearch_width target j min_v max_v =
    (if j < 250
     then (let energy_min = energy min_v; energy_max = energy max_v
           in if max_v - min_v \<le> target then (j, min_v, max_v)
              else (let max_v' = (if energy_min < energy_max
                                  then max_v - ((max_v - min_v) * binsearch_width) else max_v);
                        min_v' = (if energy_min > energy_max
                                  then min_v + ((max_v' - min_v) * binsearch_width) else min_v)
                    in binsearch_loop energy binsearch_width target (j + 1) min_v' max_v'))
     else (j, min_v, max_v))"
  by pat_completeness auto
termination
  by (relation "measure (\<lambda>(energy, binsearch_width, target, j, min_v, max_v). 250 - j)") auto

declare binsearch_loop.simps [simp del]

definition find_optimal_config :: "(real \<Rightarrow> real) \<Rightarrow> real \<Rightarrow> real \<Rightarrow> real \<Rightarrow> real \<Rightarrow> real" where
  "find_optimal_config energy min_v max_v binsearch_width target =
    (case binsearch_loop energy binsearch_width target 0 min_v max_v of
       (j, min_v', max_v') \<Rightarrow> (min_v' + max_v') / 2)"

text \<open>
  The \<^verbatim>\<open>float[3]\<close> version tests \<^verbatim>\<open>values\<close> with \<^verbatim>\<open>values[value_idx]\<close> replaced by the
  bound, runs the same loop, and restores \<^verbatim>\<open>values[value_idx]\<close>.
\<close>

definition find_optimal_config3 ::
  "(real list \<Rightarrow> real) \<Rightarrow> real list \<Rightarrow> nat \<Rightarrow> real \<Rightarrow> real \<Rightarrow> real \<Rightarrow> real \<Rightarrow> real" where
  "find_optimal_config3 energy values value_idx min_v max_v binsearch_width target =
    find_optimal_config (\<lambda>v. energy (values[value_idx := v])) min_v max_v binsearch_width target"

text \<open>
  \<^verbatim>\<open>move_randomly_towards\<close>; \<open>rnd\<close> is the draw \<^verbatim>\<open>(float)rand() / RAND_MAX\<close>. The result is
  the new \<^verbatim>\<open>value\<close>.
\<close>

definition move_randomly_towards :: "real \<Rightarrow> real \<Rightarrow> real \<Rightarrow> real \<Rightarrow> real \<Rightarrow> real \<Rightarrow> real" where
  "move_randomly_towards rnd value best temp target overrun_divisor =
    (let step0 = (rnd * temp) + 1 / 1000;
         step1 = (if best > value + target \<and> value + step0 > best
                  then step0 / overrun_divisor else step0);
         value1 = (if best > value + target then value + step1 else value);
         step2 = (if best < value1 - target \<and> value1 - step1 < best
                  then step1 / overrun_divisor else step1);
         value2 = (if best < value1 - target then value1 - step2 else value1)
     in value2)"

subsection \<open>Heuristic calibration: the tower radius and tower angle groups\<close>

text \<open>The kinematic settings \<^verbatim>\<open>cur_set\<close>; the vectors are indexed by tower.\<close>

record KinematicSettings =
  delta_radius :: real
  arm_length :: real
  trim :: "real list"
  tower_radius :: "real list"
  tower_angle :: "real list"
  virtual_shimming :: "real list"

text \<open>
  The loop \<^verbatim>\<open>for(k=0; k<3; k++)\<close> of a group: find the best value of offset \<open>k\<close> in the
  test range and move the offset randomly towards it. \<open>energy\<close> is the energy of the
  printer with the three offsets set as given, \<open>rnd k\<close> the draw for tower \<open>k\<close>.
\<close>

definition anneal_offsets ::
  "(real list \<Rightarrow> real) \<Rightarrow> (nat \<Rightarrow> real) \<Rightarrow> real \<Rightarrow> real \<Rightarrow> real \<Rightarrow> real \<Rightarrow> real \<Rightarrow> real
     \<Rightarrow> real list \<Rightarrow> real list" where
  "anneal_offsets energy rnd range_min range_max binsearch_width temp target overrun_divisor values =
    fold (\<lambda>k vals.
        (let best_value = find_optimal_config3 energy vals k range_min range_max binsearch_width target
         in vals[k := move_randomly_towards (rnd k) (vals ! k) best_value temp target overrun_divisor]))
      [0..<3] values"

text \<open>
  The \<^verbatim>\<open>Delta Radius\<close> block of the inner loop: the offsets are annealed in the test range
  (-3, 3), then "find the tower radius with the lowest absolute value" and "steal that
  value from the individual radius settings and give it to the global radius setting".
\<close>

definition lowest_tower_radius :: "real list \<Rightarrow> real" where
  "lowest_tower_radius tr =
    fold (\<lambda>k lowest. if \<bar>tr ! k\<bar> < lowest then tr ! k else lowest) [0..<3] 999"

definition delta_radius_group ::
  "(real list \<Rightarrow> real) \<Rightarrow> (nat \<Rightarrow> real) \<Rightarrow> real \<Rightarrow> real \<Rightarrow> real \<Rightarrow> real \<Rightarrow> real
     \<Rightarrow> KinematicSettings \<Rightarrow> KinematicSettings" where
  "delta_radius_group energy rnd binsearch_width temp annealing_temp_mul target overrun_divisor cur =
    (let tr = anneal_offsets energy rnd (- 3) 3 binsearch_width (temp * annealing_temp_mul)
                target overrun_divisor (tower_radius cur);
         lowest = lowest_tower_radius tr;
         tr' = fold (\<lambda>k t. t[k := t ! k - lowest]) [0..<3] tr
     in cur\<lparr>tower_radius := tr', delta_radius := delta_radius cur + lowest\<rparr>)"

text \<open>
  The \<^verbatim>\<open>Tower angles\<close> block: the offsets are annealed in the test range (-3, 3), with the
  temperature multiplier of the endstop group, and handed to the arm solution.
\<close>

definition tower_angle_group ::
  "(real list \<Rightarrow> real) \<Rightarrow> (nat \<Rightarrow> real) \<Rightarrow> real \<Rightarrow> real \<Rightarrow> real \<Rightarrow> real \<Rightarrow> real
     \<Rightarrow> KinematicSettings \<Rightarrow> KinematicSettings" where
  "tower_angle_group energy rnd binsearch_width temp endstop_annealing_temp_mul target
      overrun_divisor cur =
    cur\<lparr>tower_angle := anneal_offsets energy rnd (- 3) 3 binsearch_width
        (temp * endstop_annealing_temp_mul) target overrun_divisor (tower_angle cur)\<rparr>"

subsection \<open>Iterative calibration: the endstop corrector\<close>

text \<open>
  One pass of the \<^verbatim>\<open>ENDSTOPS\<close> block of \<^verbatim>\<open>iterative_calibration\<close>. The four probed
  depths are indexed \<^verbatim>\<open>TP_CTR, TP_X, TP_Y, TP_Z\<close>; \<^verbatim>\<open>last_deviation\<close> and
  \<^verbatim>\<open>trimscale\<close> are the block's static variables, \<^verbatim>\<open>needs_reset\<close> and
  \<^verbatim>\<open>in_tolerance\<close> the fields of \<^verbatim>\<open>caltype.endstop\<close>. The trim store's answer to
  \<^verbatim>\<open>get_trim\<close> is an input (\<open>None\<close> when the query fails); the vector handed to
  \<^verbatim>\<open>set_trim\<close> is an output (\<open>None\<close> when the block does not call it).
\<close>

record endstop_caltype =
  last_deviation :: real
  trimscale :: real
  needs_reset :: bool
  in_tolerance :: bool

datatype abort = Couldnt_query_trim | Trim_below_minus_5

record probed_depths =
  depth_CTR :: real
  depth_X :: real
  depth_Y :: real
  depth_Z :: real

definition sanity_clamp_trim :: "real \<times> real \<times> real \<Rightarrow> real \<times> real \<times> real" where
  "sanity_clamp_trim t = (case t of (tx, ty, tz) \<Rightarrow>
     ((if tx > 0 then 0 else tx), (if ty > 0 then 0 else ty), (if tz > 0 then 0 else tz)))"

definition normalize_trim :: "real \<times> real \<times> real \<Rightarrow> real \<times> real \<times> real" where
  "normalize_trim t = (case t of (tx, ty, tz) \<Rightarrow>
     (let mm = minmax3 tx ty tz in (tx - snd mm, ty - snd mm, tz - snd mm)))"

definition tower_deviation_of :: "probed_depths \<Rightarrow> real" where
  "tower_deviation_of depth =
    (let tower_minmax = minmax4 (depth_CTR depth) (depth_X depth) (depth_Y depth) (depth_Z depth)
     in snd tower_minmax - fst tower_minmax)"

definition endstop_corrector ::
  "real \<Rightarrow> probed_depths \<Rightarrow> (real \<times> real \<times> real) option \<Rightarrow> endstop_caltype
     \<Rightarrow> abort + (endstop_caltype \<times> (real \<times> real \<times> real) option)" where
  "endstop_corrector target depth stored_trim es0 =
    (let tower_minmax = minmax4 (depth_CTR depth) (depth_X depth) (depth_Y depth) (depth_Z depth);
         tower_deviation = tower_deviation_of depth;
         es1 = (if needs_reset es0
                then es0\<lparr>last_deviation := 999, trimscale := 13 / 10, needs_reset := False\<rparr>
                else es0)
     in if \<bar>tower_deviation\<bar> \<le> target
        then Inr (es1\<lparr>in_tolerance := True\<rparr>, None)
        else
          (case stored_trim of
             None \<Rightarrow> Inl Couldnt_query_trim
           | Some got \<Rightarrow>
              (case sanity_clamp_trim got of (tx, ty, tz) \<Rightarrow>
                if tx < - 5 \<or> ty < - 5 \<or> tz < - 5
                then Inl Trim_below_minus_5
                else
                  (let es2 = es1\<lparr>in_tolerance := False\<rparr>;
                       es3 = (if tower_deviation \<ge> last_deviation es2
                                 \<and> trimscale es2 * (95 / 100) \<ge> 9 / 10
                              then es2\<lparr>trimscale := trimscale es2 * (9 / 10)\<rparr>
                              else es2);
                       es4 = es3\<lparr>last_deviation := tower_deviation\<rparr>;
                       tx' = tx + (fst tower_minmax - depth_X depth) * trimscale es4;
                       ty' = ty + (fst tower_minmax - depth_Y depth) * trimscale es4;
                       tz' = tz + (fst tower_minmax - depth_Z depth) * trimscale es4
                   in Inr (es4, Some (normalize_trim (tx', ty', tz')))))))"

text \<open>
  The end of \<^verbatim>\<open>heuristic_calibration\<close>: "Normalize trim (this prevents downward creep)".
  The result is both the new \<^verbatim>\<open>cur_set.trim\<close> and the vector handed to \<^verbatim>\<open>set_trim\<close>.
\<close>

definition heuristic_final_trim :: "real \<times> real \<times> real \<Rightarrow> real \<times> real \<times> real" where
  "heuristic_final_trim cur_trim = normalize_trim cur_trim"

subsection \<open>Notions used in the statements\<close>

text \<open>The points that \<^verbatim>\<open>find_nearest_test_point\<close> may return by its own test.\<close>

definition tagged :: "grid \<Rightarrow> nat \<Rightarrow> bool" where
  "tagged g i \<longleftrightarrow> active_point g ! i = TP_ACTIVE \<or> active_point g ! i = TP_CENTER"

text \<open>What the scan of \<^verbatim>\<open>find_nearest_test_point\<close> has established after \<open>k\<close> points.\<close>

definition fntp_inv :: "grid \<Rightarrow> real \<times> real \<Rightarrow> nat \<Rightarrow> real \<times> nat \<Rightarrow> bool" where
  "fntp_inv g pos k acc \<longleftrightarrow>
     fst acc \<le> 999
     \<and> (\<forall>j<k. tagged g j \<longrightarrow> fst acc \<le> distance2D pos (test_point g ! j))
     \<and> (fst acc < 999 \<longrightarrow> snd acc < k \<and> tagged g (snd acc)
            \<and> distance2D pos (test_point g ! snd acc) = fst acc)
     \<and> (fst acc = 999 \<longrightarrow> snd acc = 0)"

text \<open>The indices of the points tagged Active.\<close>

definition Active_set :: "grid \<Rightarrow> nat set" where
  "Active_set g = {i. i < DM_GRID_ELEMENTS \<and> active_point g ! i = TP_ACTIVE}"

text \<open>
  The 5 by 5 grid over a platform of radius \<open>R\<close>, row by row from the top (\<open>y = R\<close>),
  each row from the left (\<open>x = - R\<close>), the points \<open>R / 2\<close> apart.
\<close>

definition row_points :: "real \<Rightarrow> real \<Rightarrow> (real \<times> real) list" where
  "row_points R y = [(- R, y), (- R / 2, y), (0, y), (R / 2, y), (R, y)]"

definition grid_points :: "real \<Rightarrow> (real \<times> real) list" where
  "grid_points R = row_points R R @ row_points R (R / 2) @ row_points R 0
      @ row_points R (- R / 2) @ row_points R (- R)"

text \<open>
  The tags of that grid on a circular platform, before and after the origin point is
  marked: 13 points lie within the radius, the four corners and their neighbours on the
  top and bottom rows are inactive, and the four points at the ends of the second and
  fourth rows are neighbours.
\<close>

definition circle_tags0 :: "test_point_type list" where
  "circle_tags0 =
    [TP_INACTIVE, TP_INACTIVE, TP_ACTIVE, TP_INACTIVE, TP_INACTIVE,
     TP_ACTIVE_NEIGHBOR, TP_ACTIVE, TP_ACTIVE, TP_ACTIVE, TP_ACTIVE_NEIGHBOR,
     TP_ACTIVE, TP_ACTIVE, TP_ACTIVE, TP_ACTIVE, TP_ACTIVE,
     TP_ACTIVE_NEIGHBOR, TP_ACTIVE, TP_ACTIVE, TP_ACTIVE, TP_ACTIVE_NEIGHBOR,
     TP_INACTIVE, TP_INACTIVE, TP_ACTIVE, TP_INACTIVE, TP_INACTIVE]"

definition circle_tags :: "test_point_type list" where
  "circle_tags = circle_tags0[12 := TP_CENTER]"

text \<open>
  The tag of the grid position in row \<open>y\<close>, column \<open>x\<close> as the specification words it:
  Active within the radius, otherwise ActiveNeighbor within the neighbouring radius unless
  on an outer row or an outer column, otherwise Inactive.
\<close>

definition circle_tag_claimed :: "real \<Rightarrow> grid \<Rightarrow> nat \<Rightarrow> nat \<Rightarrow> test_point_type" where
  "circle_tag_claimed R g y x =
    (let dist = distance2D (0, 0) (test_point g ! (y * DM_GRID_DIMENSION + x))
     in if dist \<le> R then TP_ACTIVE
        else if dist \<le> R + R / real ((DM_GRID_DIMENSION - 1) div 2)
                \<and> y \<noteq> 0 \<and> y \<noteq> DM_GRID_DIMENSION - 1
                \<and> x \<noteq> 0 \<and> x \<noteq> DM_GRID_DIMENSION - 1
             then TP_ACTIVE_NEIGHBOR
             else TP_INACTIVE)"

text \<open>
  The same with what the source does: the point at the origin is marked Center, and only
  the top and bottom rows are kept from being neighbours.
\<close>

definition circle_tag_amended :: "real \<Rightarrow> grid \<Rightarrow> nat \<Rightarrow> nat \<Rightarrow> test_point_type" where
  "circle_tag_amended R g y x =
    (let p = test_point g ! (y * DM_GRID_DIMENSION + x); dist = distance2D (0, 0) p
     in if p = (0, 0) then TP_CENTER
        else if dist \<le> R then TP_ACTIVE
        else if dist \<le> R + R / real ((DM_GRID_DIMENSION - 1) div 2)
                \<and> y \<noteq> 0 \<and> y \<noteq> DM_GRID_DIMENSION - 1
             then TP_ACTIVE_NEIGHBOR
             else TP_INACTIVE)"

text \<open>
  The buffers of a depth map file that are not comments, newline chopped, and the range
  that the load accepts.
\<close>

definition value_lines :: "string list \<Rightarrow> string list" where
  "value_lines bufs = filter (\<lambda>b. \<not> is_comment b) (map chop_newline bufs)"

definition in_range :: "real \<Rightarrow> bool" where
  "in_range v \<longleftrightarrow> - 5 < v \<and> v < 5"

text \<open>
  An energy with a single minimum at \<open>m\<close> inside the range: strictly falling up to \<open>m\<close>,
  strictly rising from \<open>m\<close> on.
\<close>

definition unimodal_on :: "(real \<Rightarrow> real) \<Rightarrow> real \<Rightarrow> real \<Rightarrow> real \<Rightarrow> bool" where
  "unimodal_on energy lo hi m \<longleftrightarrow>
     lo \<le> m \<and> m \<le> hi
     \<and> (\<forall>x y. lo \<le> x \<and> x < y \<and> y \<le> m \<longrightarrow> energy y < energy x)
     \<and> (\<forall>x y. m \<le> x \<and> x < y \<and> y \<le> hi \<longrightarrow> energy x < energy y)"

text \<open>
  The redistribution step as the specification words it: the offset with the smallest
  absolute magnitude is subtracted from all three offsets and added to the global
  parameter.
\<close>

definition smallest_magnitude :: "real list \<Rightarrow> real" where
  "smallest_magnitude offsets =
     fold (\<lambda>v best. if \<bar>v\<bar> < \<bar>best\<bar> then v else best) (tl offsets) (hd offsets)"

definition redistribution_claimed :: "real list \<Rightarrow> real \<Rightarrow> real list \<times> real" where
  "redistribution_claimed offsets global =
     (map (\<lambda>v. v - smallest_magnitude offsets) offsets, global + smallest_magnitude offsets)"

subsection \<open>Example inputs\<close>

text \<open>A first pass of the endstop corrector, with four probed depths 0.1 mm apart.\<close>

definition es_start :: endstop_caltype where
  "es_start = \<lparr>last_deviation = 0, trimscale = 0, needs_reset = True, in_tolerance = False\<rparr>"

definition depths_example :: probed_depths where
  "depths_example = \<lparr>depth_CTR = 0, depth_X = 1 / 10, depth_Y = 2 / 10, depth_Z = 3 / 10\<rparr>"

text \<open>
  A strategy whose grid has not been initialised yet, and the grid that
  \<^verbatim>\<open>init_test_points\<close> makes of it for a circular platform of radius 100 mm.
\<close>

definition grid_blank :: grid where
  "grid_blank = \<lparr>test_point = replicate 25 (0, 0), active_point = replicate 25 TP_INACTIVE,
     tower_point_idx = (0, 0, 0, 0), tri_points = ((0, 0, 0), (0, 0, 0), (0, 0, 0))\<rparr>"

definition grid_100 :: grid where
  "grid_100 = the (init_test_points 100 PSS_CIRCLE grid_blank)"

text \<open>A set of depths that lie 0.1 mm below the reference at every grid point.\<close>

definition cart_example :: "(real \<times> real \<times> real) list" where
  "cart_example = map (\<lambda>p. (fst p, snd p, - (1 / 10))) (grid_points 100)"

text \<open>
  A surface transform with depth correction enabled and active, plane correction off, and
  a depth map whose entry \<open>i\<close> is \<open>i / 100\<close> mm.
\<close>

definition st_example :: surface_transform_t where
  "st_example = \<lparr>st_depth = map (\<lambda>i. real i / 100) [0..<25], st_depth_enabled = True,
     st_have_depth_map = False, st_plane_enabled = False, st_active = True,
     st_have_normal = True, st_normal = (0, 0, 1), st_d = 0\<rparr>"

text \<open>
  A depth map file with a corrupt value in third place, and a file of 24 values under a
  comment line, one value short; a parser that knows the numerals used; the command \<^verbatim>\<open>M667 E1\<close>; a surface transform with no depth map yet.
\<close>

definition file_corrupt :: "string list" where
  "file_corrupt = [''; Depth Map Surface Transform'', ''0.1'' @ [CHR 0x0A], ''0.1'' @ [CHR 0x0A],
     ''9'' @ [CHR 0x0A], ''0.1'' @ [CHR 0x0A]]"

definition file_short :: "string list" where
  "file_short = ''; Depth Map Surface Transform'' # replicate 24 (''0.1'' @ [CHR 0x0A])"

definition atof_example :: "string \<Rightarrow> real" where
  "atof_example buf = (if buf = ''0.1'' then 1 / 10 else if buf = ''9'' then 9 else 0)"

definition gcode_E1 :: gcode where
  "gcode_E1 = (\<lambda>c. if c = CHR ''E'' then Some 1 else None)"

definition st_unloaded :: surface_transform_t where
  "st_unloaded = \<lparr>st_depth = [], st_depth_enabled = False,
     st_have_depth_map = False, st_plane_enabled = False, st_active = True,
     st_have_normal = True, st_normal = (0, 0, 1), st_d = 0\<rparr>"

text \<open>
  An energy with its single minimum at -4.9 that rises a hundred times faster to the left
  of it than to the right.
\<close>

definition energy_skew :: "real \<Rightarrow> real" where
  "energy_skew x = (if x < - (49 / 10) then 10 * (- (49 / 10) - x) else (x - - (49 / 10)) / 10)"

text \<open>
  Kinematic settings with tower angle offsets 1, 2 and 3, a flat energy, and random draws
  that are all 0.
\<close>

definition cur_example :: KinematicSettings where
  "cur_example = \<lparr>delta_radius = 130, arm_length = 270, trim = [0, 0, 0],
     tower_radius = [1, 2, 3], tower_angle = [1, 2, 3], virtual_shimming = [0, 0, 0]\<rparr>"

text \<open>
  The same settings with the tower radius offsets -1, 0 and 2 (the offsets that the
  simulated printer is given), and with three offsets just above 1000.
\<close>

definition cur_negative :: KinematicSettings where
  "cur_negative = cur_example\<lparr>tower_radius := [- 1, 0, 2]\<rparr>"

definition cur_far :: KinematicSettings where
  "cur_far = cur_example\<lparr>tower_radius := [1000001 / 1000, 1000001 / 1000, 1000001 / 1000]\<rparr>"

definition energy_flat :: "real list \<Rightarrow> real" where
  "energy_flat values = 0"

definition rnd_zero :: "nat \<Rightarrow> real" where
  "rnd_zero k = 0"

text \<open>An energy that is the distance from its minimum at 1.\<close>

definition energy_vee :: "real \<Rightarrow> real" where
  "energy_vee x = \<bar>x - 1\<bar>"

section \<open>Properties\<close>

subsection \<open>Trim renormalisation and the trim sanity check\<close>

lemma normalize_trim_max:
  "normalize_trim (a, b, c) = (x, y, z) \<Longrightarrow> max x (max y z) = 0"
  by (auto simp: normalize_trim_def minmax3_def Let_def max_def)

lemma endstop_corrector_set_trim:
  assumes "endstop_corrector target depth stored es0 = Inr (es', Some t)"
  shows "\<exists>a b c. t = normalize_trim (a, b, c)"
  using assms
  by (auto simp: endstop_corrector_def Let_def split: if_splits option.splits prod.splits)

text \<open>
  C6. Every trim vector that the endstop corrector of iterative calibration hands to the
  trim store, and the trim vector that heuristic calibration hands to it after its final
  renormalisation, has maximum component exactly 0.
\<close>

theorem trim_renormalized_max_zero:
  "(endstop_corrector target depth stored es0 = Inr (es', Some (x, y, z))
      \<longrightarrow> max x (max y z) = 0)
   \<and> (heuristic_final_trim cur_trim = (x', y', z') \<longrightarrow> max x' (max y' z') = 0)"
proof (intro conjI impI)
  assume "endstop_corrector target depth stored es0 = Inr (es', Some (x, y, z))"
  then obtain a b c where "(x, y, z) = normalize_trim (a, b, c)"
    using endstop_corrector_set_trim by blast
  then show "max x (max y z) = 0"
    using normalize_trim_max [of a b c x y z] by simp
next
  assume "heuristic_final_trim cur_trim = (x', y', z')"
  then show "max x' (max y' z') = 0"
    unfolding heuristic_final_trim_def
    by (cases cur_trim) (auto dest: normalize_trim_max)
qed

lemma endstop_corrector_example:
  "endstop_corrector (3 / 100) depths_example (Some (0, 0, 0)) es_start
     = Inr (\<lparr>last_deviation = 3 / 10, trimscale = 13 / 10, needs_reset = False,
              in_tolerance = False\<rparr>, Some (0, - (13 / 100), - (26 / 100)))"
  by (simp add: endstop_corrector_def tower_deviation_of_def minmax4_def minmax3_def
      sanity_clamp_trim_def normalize_trim_def es_start_def depths_example_def Let_def)

lemma heuristic_final_trim_example:
  "heuristic_final_trim (- 1, - 2, - 3) = (0, - 1, - 2)"
  by (simp add: heuristic_final_trim_def normalize_trim_def minmax3_def Let_def)

theorem trim_renormalized_max_zero_witness:
  "endstop_corrector (3 / 100) depths_example (Some (0, 0, 0)) es_start
     = Inr (\<lparr>last_deviation = 3 / 10, trimscale = 13 / 10, needs_reset = False,
              in_tolerance = False\<rparr>, Some (0, - (13 / 100), - (26 / 100)))
   \<and> max (0 :: real) (max (- (13 / 100)) (- (26 / 100))) = 0
   \<and> heuristic_final_trim (- 1, - 2, - 3) = (0, - 1, - 2)
   \<and> max (0 :: real) (max (- 1) (- 2)) = 0"
  using trim_renormalized_max_zero [of "3 / 100" depths_example "Some (0, 0, 0)" es_start
      "\<lparr>last_deviation = 3 / 10, trimscale = 13 / 10, needs_reset = False,
        in_tolerance = False\<rparr>" 0 "- (13 / 100)" "- (26 / 100)" "(- 1, - 2, - 3)" 0 "- 1" "- 2"]
    endstop_corrector_example heuristic_final_trim_example
  by simp

text \<open>
  C5 as stated fails for components greater than 0: a stored trim of (1, 0, 0) does not
  abort the calibration; the corrector goes on and sets a new trim.
\<close>

theorem trim_above_zero_counterexample:
  "(1 :: real) > 0
   \<and> \<not> \<bar>tower_deviation_of depths_example\<bar> \<le> 3 / 100
   \<and> endstop_corrector (3 / 100) depths_example (Some (1, 0, 0)) es_start
     = Inr (\<lparr>last_deviation = 3 / 10, trimscale = 13 / 10, needs_reset = False,
              in_tolerance = False\<rparr>, Some (0, - (13 / 100), - (26 / 100)))"
  by (simp add: endstop_corrector_def tower_deviation_of_def minmax4_def minmax3_def
      sanity_clamp_trim_def normalize_trim_def es_start_def depths_example_def Let_def)

text \<open>
  C5, amended. When the tower deviation is out of tolerance and the trim store answers
  with (tx, ty, tz), the calibration aborts exactly when some component is less than -5
  (and then with the trim sanity failure); a component greater than 0 does not abort:
  it is replaced by 0, the corrector behaving as if the store had answered 0 there.
\<close>

theorem trim_sanity_check:
  assumes "\<not> \<bar>tower_deviation_of depth\<bar> \<le> target"
  shows "(isl (endstop_corrector target depth (Some (tx, ty, tz)) es0)
            \<longleftrightarrow> tx < - 5 \<or> ty < - 5 \<or> tz < - 5)
       \<and> (tx < - 5 \<or> ty < - 5 \<or> tz < - 5
            \<longrightarrow> endstop_corrector target depth (Some (tx, ty, tz)) es0 = Inl Trim_below_minus_5)
       \<and> endstop_corrector target depth (Some (tx, ty, tz)) es0
           = endstop_corrector target depth (Some (min tx 0, min ty 0, min tz 0)) es0"
  using assms
  by (auto simp: endstop_corrector_def sanity_clamp_trim_def Let_def min_def)

theorem trim_sanity_check_witness:
  "\<not> \<bar>tower_deviation_of depths_example\<bar> \<le> 3 / 100
   \<and> endstop_corrector (3 / 100) depths_example (Some (0, - 6, 0)) es_start
       = Inl Trim_below_minus_5
   \<and> endstop_corrector (3 / 100) depths_example (Some (2, - 1, 0)) es_start
       = endstop_corrector (3 / 100) depths_example (Some (0, - 1, 0)) es_start"
  using trim_sanity_check [of depths_example "3 / 100" 0 "- 6" 0 es_start]
    trim_sanity_check [of depths_example "3 / 100" 2 "- 1" 0 es_start]
  by (simp add: tower_deviation_of_def minmax4_def depths_example_def)

subsection \<open>The scan for the nearest test point\<close>

lemma fntp_inv_step:
  assumes "fntp_inv g pos k acc"
  shows "fntp_inv g pos (Suc k) (fntp_step g pos k acc)"
proof (cases acc)
  case (Pair lowest idx)
  show ?thesis
    using assms unfolding Pair fntp_inv_def fntp_step_def tagged_def Let_def
    by (auto simp: less_Suc_eq)
qed

lemma fntp_inv_fold:
  "fntp_inv g pos k (fold (fntp_step g pos) [0..<k] (999, 0))"
proof (induction k)
  case 0
  show ?case by (simp add: fntp_inv_def)
next
  case (Suc k)
  then show ?case by (simp add: fntp_inv_step)
qed

lemma find_nearest_test_point_near:
  assumes "j < DM_GRID_ELEMENTS" "tagged g j" "distance2D pos (test_point g ! j) < 999"
  shows "find_nearest_test_point g pos < DM_GRID_ELEMENTS
     \<and> tagged g (find_nearest_test_point g pos)
     \<and> (\<forall>i<DM_GRID_ELEMENTS. tagged g i \<longrightarrow>
           distance2D pos (test_point g ! find_nearest_test_point g pos)
             \<le> distance2D pos (test_point g ! i))"
proof -
  let ?acc = "fold (fntp_step g pos) [0..<DM_GRID_ELEMENTS] (999, 0)"
  have inv: "fntp_inv g pos DM_GRID_ELEMENTS ?acc" by (rule fntp_inv_fold)
  then have "fst ?acc \<le> distance2D pos (test_point g ! j)"
    using assms(1,2) unfolding fntp_inv_def by blast
  then have lt: "fst ?acc < 999" using assms(3) by linarith
  show ?thesis
    using inv lt unfolding fntp_inv_def find_nearest_test_point_def by auto
qed

lemma find_nearest_test_point_far:
  assumes "\<forall>j<DM_GRID_ELEMENTS. tagged g j \<longrightarrow> 999 \<le> distance2D pos (test_point g ! j)"
  shows "find_nearest_test_point g pos = 0"
proof -
  let ?acc = "fold (fntp_step g pos) [0..<DM_GRID_ELEMENTS] (999, 0)"
  have inv: "fntp_inv g pos DM_GRID_ELEMENTS ?acc" by (rule fntp_inv_fold)
  have "\<not> fst ?acc < 999"
  proof
    assume lt: "fst ?acc < 999"
    then have "snd ?acc < DM_GRID_ELEMENTS" "tagged g (snd ?acc)"
      "distance2D pos (test_point g ! snd ?acc) = fst ?acc"
      using inv unfolding fntp_inv_def by auto
    then show False using assms lt by fastforce
  qed
  then have "fst ?acc = 999" using inv unfolding fntp_inv_def by linarith
  then show ?thesis using inv unfolding fntp_inv_def find_nearest_test_point_def by blast
qed


subsection \<open>The test points of the grid\<close>

lemma init_points_x_step:
  "x \<le> R \<Longrightarrow> n < 25 \<Longrightarrow> n < length tp \<Longrightarrow>
     init_points_x R s y x n tp = init_points_x R s y (x + s) (Suc n) (tp[n := (x, y)])"
  by (subst init_points_x.simps) (simp add: DM_GRID_ELEMENTS_def DM_GRID_DIMENSION_def)

lemma init_points_x_stop:
  "\<not> x \<le> R \<Longrightarrow> init_points_x R s y x n tp = Some (n, tp)"
  by (subst init_points_x.simps) simp

lemma init_points_x_row:
  assumes "0 < R" "length tp = 25" "n + 5 \<le> 25"
  shows "init_points_x R (R / 2) y (- R) n tp
     = Some (Suc (Suc (Suc (Suc (Suc n)))), tp[n := (- R, y), Suc n := (- R / 2, y), Suc (Suc n) := (0, y),
                       Suc (Suc (Suc n)) := (R / 2, y), Suc (Suc (Suc (Suc n))) := (R, y)])"
  using assms by (simp add: init_points_x_step init_points_x_stop)

lemma list25:
  assumes "length (xs :: 'a list) = 25"
  obtains a0 a1 a2 a3 a4 a5 a6 a7 a8 a9 a10 a11 a12 a13 a14 a15 a16 a17 a18 a19 a20 a21 a22 a23 a24
  where "xs = [a0, a1, a2, a3, a4, a5, a6, a7, a8, a9, a10, a11, a12, a13, a14, a15, a16, a17,
     a18, a19, a20, a21, a22, a23, a24]"
proof -
  have "xs = map (\<lambda>i. xs ! i) [0..<25]"
    using assms by (metis map_nth)
  also have "[0..<25] = [0,1,2,3,4,5,6,7,8,9,10,11,12,13,14,15,16,17,18,19,20,21,22,23,24::nat]"
    by (simp add: upt_rec)
  finally show ?thesis using that by simp
qed

lemma init_points_y_grid:
  assumes "0 < R" "length tp = 25"
  shows "init_points_y R (R / 2) R 0 tp = Some (25, grid_points R)"
proof (rule list25 [OF assms(2)])
  fix a0 a1 a2 a3 a4 a5 a6 a7 a8 a9 a10 a11 a12 a13 a14 a15 a16 a17 a18 a19 a20 a21 a22 a23 a24
  assume tp: "tp = [a0, a1, a2, a3, a4, a5, a6, a7, a8, a9, a10, a11, a12, a13, a14, a15, a16, a17,
     a18, a19, a20, a21, a22, a23, a24]"
  have r1: "init_points_y R (R / 2) R 0 tp = init_points_y R (R / 2) (R / 2) 5 (row_points R R @ drop 5 tp)"
    using assms(1) unfolding tp
    by (subst init_points_y.simps) (simp add: init_points_x_row row_points_def eval_nat_numeral)
  have r2: "init_points_y R (R / 2) (R / 2) 5 (row_points R R @ drop 5 tp)
      = init_points_y R (R / 2) 0 10 (row_points R R @ row_points R (R / 2) @ drop 10 tp)"
    using assms(1) unfolding tp
    by (subst init_points_y.simps) (simp add: init_points_x_row row_points_def eval_nat_numeral)
  have r3: "init_points_y R (R / 2) 0 10 (row_points R R @ row_points R (R / 2) @ drop 10 tp)
      = init_points_y R (R / 2) (- R / 2) 15
          (row_points R R @ row_points R (R / 2) @ row_points R 0 @ drop 15 tp)"
    using assms(1) unfolding tp
    by (subst init_points_y.simps) (simp add: init_points_x_row row_points_def eval_nat_numeral)
  have r4: "init_points_y R (R / 2) (- R / 2) 15
          (row_points R R @ row_points R (R / 2) @ row_points R 0 @ drop 15 tp)
      = init_points_y R (R / 2) (- R) 20
          (row_points R R @ row_points R (R / 2) @ row_points R 0 @ row_points R (- R / 2)
             @ drop 20 tp)"
    using assms(1) unfolding tp
    by (subst init_points_y.simps) (simp add: init_points_x_row row_points_def eval_nat_numeral)
  have r5: "init_points_y R (R / 2) (- R) 20
          (row_points R R @ row_points R (R / 2) @ row_points R 0 @ row_points R (- R / 2)
             @ drop 20 tp)
      = init_points_y R (R / 2) (- R - R / 2) 25 (grid_points R)"
    using assms(1) unfolding tp
    by (subst init_points_y.simps) (simp add: init_points_x_row row_points_def grid_points_def eval_nat_numeral)
  have r6: "init_points_y R (R / 2) (- R - R / 2) 25 (grid_points R) = Some (25, grid_points R)"
    using assms(1) by (subst init_points_y.simps) simp
  show ?thesis
    by (simp only: r1 r2 r3 r4 r5 r6)
qed


subsection \<open>The classification of the grid points\<close>

lemma origin_distance_le_iff:
  assumes "0 \<le> r"
  shows "distance2D (0, 0) (x, y) \<le> r \<longleftrightarrow> x\<^sup>2 + y\<^sup>2 \<le> r\<^sup>2"
  unfolding distance2D_def using assms
  by (auto intro: real_le_lsqrt dest: sqrt_le_D)

lemma sq_half: "(R / 2)\<^sup>2 = R\<^sup>2 / 4" for R :: real
  by (simp add: power_divide)

lemma sq_three_half: "(R + R / 2)\<^sup>2 = 9 * R\<^sup>2 / 4" for R :: real
  by (simp add: power2_eq_square field_simps)

lemma neighboring_probe_radius_5: "neighboring_probe_radius R = R + R / 2"
  by (simp add: neighboring_probe_radius_def DM_GRID_DIMENSION_def)

lemma neighbor_distance_le_iff:
  assumes "0 < R"
  shows "distance2D (0, 0) (x, y) \<le> neighboring_probe_radius R
     \<longleftrightarrow> 4 * (x\<^sup>2 + y\<^sup>2) \<le> 9 * R\<^sup>2"
proof -
  have "0 \<le> R + R / 2" using assms by simp
  then have "distance2D (0, 0) (x, y) \<le> R + R / 2 \<longleftrightarrow> x\<^sup>2 + y\<^sup>2 \<le> (R + R / 2)\<^sup>2"
    by (rule origin_distance_le_iff)
  also have "\<dots> \<longleftrightarrow> 4 * (x\<^sup>2 + y\<^sup>2) \<le> 9 * R\<^sup>2"
    unfolding sq_three_half by auto
  finally show ?thesis
    unfolding neighboring_probe_radius_5 .
qed

lemma upt5: "[0..<5] = [0, 1, 2, 3, 4]"
  by (simp add: upt_rec)

lemma classify_point_test_point:
  "test_point g' = test_point g \<Longrightarrow>
     classify_point R shape g' y x = classify_point R shape g y x"
  unfolding classify_point_def by presburger

lemma determine_active_points_circle:
  assumes "0 < R" "test_point g = grid_points R" "length (active_point g) = 25"
  shows "determine_active_points R PSS_CIRCLE g = g\<lparr>active_point := circle_tags0\<rparr>"
proof (rule list25 [OF assms(3)])
  fix a0 a1 a2 a3 a4 a5 a6 a7 a8 a9 a10 a11 a12 a13 a14 a15 a16 a17 a18 a19 a20 a21 a22 a23 a24
  assume ap: "active_point g = [a0, a1, a2, a3, a4, a5, a6, a7, a8, a9, a10, a11, a12, a13, a14,
     a15, a16, a17, a18, a19, a20, a21, a22, a23, a24]"
  have R2: "0 < R\<^sup>2" using assms(1) by simp
  have c: "classify_point R PSS_CIRCLE g' y x = classify_point R PSS_CIRCLE g y x"
    if "test_point g' = test_point g" for g' y x
    using that by (rule classify_point_test_point)
  show ?thesis
    using assms(1) R2
    by (simp add: determine_active_points_def DM_GRID_DIMENSION_def upt5 c ap
        classify_point_def assms(2) grid_points_def row_points_def Let_def
        neighbor_distance_le_iff origin_distance_le_iff sq_half circle_tags0_def)
qed

lemma upt25:
  "[0..<25] = [0,1,2,3,4,5,6,7,8,9,10,11,12,13,14,15,16,17,18,19,20,21,22,23,24::nat]"
  by (simp add: upt_rec)

lemma grid_points_origin:
  assumes "0 < R" "i < 25" "grid_points R ! i = (0, 0)"
  shows "i = 12"
proof -
  have "\<forall>i \<in> set [0..<25]. grid_points R ! i = (0, 0) \<longrightarrow> i = 12"
    unfolding upt25 using assms(1) by (simp add: grid_points_def row_points_def)
  then show ?thesis using assms(2,3) by simp
qed

lemma distance2D_zero_iff: "distance2D p q = 0 \<longleftrightarrow> p = q"
proof -
  have "(fst q - fst p)\<^sup>2 + (snd q - snd p)\<^sup>2 = 0 \<longleftrightarrow> p = q"
    by (auto simp: prod_eq_iff)
  then show ?thesis
    by (simp add: distance2D_def)
qed

lemma distance2D_nonneg: "0 \<le> distance2D p q"
  by (simp add: distance2D_def)

lemma find_center_circle:
  assumes "0 < R" "test_point g = grid_points R" "active_point g = circle_tags0"
  shows "find_nearest_test_point g (0, 0) = 12"
proof -
  have t12: "tagged g 12"
    by (simp add: tagged_def assms(3) circle_tags0_def)
  have p12: "test_point g ! 12 = (0, 0)"
    by (simp add: assms(2) grid_points_def row_points_def)
  have d12: "distance2D (0, 0) (test_point g ! 12) = 0"
    by (simp add: p12 distance2D_zero_iff)
  let ?r = "find_nearest_test_point g (0, 0)"
  have near: "?r < DM_GRID_ELEMENTS
     \<and> (\<forall>i<DM_GRID_ELEMENTS. tagged g i \<longrightarrow>
           distance2D (0, 0) (test_point g ! ?r) \<le> distance2D (0, 0) (test_point g ! i))"
    using find_nearest_test_point_near [of 12 g "(0, 0)"] t12 d12
    by (simp add: DM_GRID_ELEMENTS_def DM_GRID_DIMENSION_def)
  then have "distance2D (0, 0) (test_point g ! ?r) \<le> distance2D (0, 0) (test_point g ! 12)"
    using t12 by (simp add: DM_GRID_ELEMENTS_def DM_GRID_DIMENSION_def)
  then have "distance2D (0, 0) (test_point g ! ?r) = 0"
    using d12 distance2D_nonneg [of "(0, 0)" "test_point g ! ?r"] by linarith
  then have "grid_points R ! ?r = (0, 0)"
    by (simp add: distance2D_zero_iff assms(2))
  moreover have "?r < 25"
    using near by (simp add: DM_GRID_ELEMENTS_def DM_GRID_DIMENSION_def)
  ultimately show ?thesis
    using grid_points_origin [OF assms(1)] by blast
qed

lemma init_test_points_circle:
  assumes "0 < R" "length (test_point g) = 25" "length (active_point g) = 25"
  shows "\<exists>g'. init_test_points R PSS_CIRCLE g = Some g'
     \<and> test_point g' = grid_points R \<and> active_point g' = circle_tags"
proof -
  let ?g0 = "g\<lparr>test_point := grid_points R\<rparr>"
  let ?g1 = "?g0\<lparr>active_point := circle_tags0\<rparr>"
  have sp: "R * 2 / real (DM_GRID_DIMENSION - 1) = R / 2"
    by (simp add: DM_GRID_DIMENSION_def)
  have pts: "init_points_y R (R / 2) R 0 (test_point g) = Some (25, grid_points R)"
    using assms(1,2) by (rule init_points_y_grid)
  have act: "determine_active_points R PSS_CIRCLE ?g0 = ?g1"
    using assms(1,3) by (simp add: determine_active_points_circle)
  have ctr: "find_nearest_test_point ?g1 (0, 0) = 12"
    using assms(1) by (simp add: find_center_circle)
  show ?thesis
    unfolding init_test_points_def Let_def sp pts
    by (simp add: act ctr circle_tags_def)
qed


lemma grid_points_nth:
  assumes "y < 5" "x < 5"
  shows "grid_points R ! (y * 5 + x) = (- R + real x * (R / 2), R - real y * (R / 2))"
proof -
  have "\<forall>y \<in> set [0..<5]. \<forall>x \<in> set [0..<5].
      grid_points R ! (y * 5 + x) = (- R + real x * (R / 2), R - real y * (R / 2))"
    unfolding upt5 by (simp add: grid_points_def row_points_def)
  then show ?thesis using assms by simp
qed

lemma circle_tags_amended:
  assumes "0 < R" "test_point g = grid_points R" "y < 5" "x < 5"
  shows "circle_tags ! (y * 5 + x) = circle_tag_amended R g y x"
proof -
  have R2: "0 < R\<^sup>2" using assms(1) by simp
  have nb: "R + R / real ((DM_GRID_DIMENSION - 1) div 2) = neighboring_probe_radius R"
    by (simp add: neighboring_probe_radius_def)
  have "\<forall>y \<in> set [0..<5]. \<forall>x \<in> set [0..<5].
      circle_tags ! (y * 5 + x) = circle_tag_amended R g y x"
    unfolding upt5 circle_tag_amended_def nb using assms(1) R2
    by (simp add: assms(2) grid_points_def row_points_def Let_def DM_GRID_DIMENSION_def
        neighbor_distance_le_iff origin_distance_le_iff sq_half circle_tags_def circle_tags0_def)
  then show ?thesis using assms(3,4) by simp
qed

text \<open>
  C3, amended. After grid initialisation for a circular platform of radius R > 0, the grid
  point in row y and column x lies at (-R + x R/2, R - y R/2), and it is tagged: Center if
  it is the point at the origin; otherwise Active if its distance from the origin is at
  most R; otherwise ActiveNeighbor if and only if its distance is at most
  R + R / ((gridSize - 1) / 2) and it is not on the top or bottom row (the outer columns
  are not excluded); otherwise Inactive.
\<close>

theorem init_test_points_circle_tags:
  assumes "0 < R"
    and "length (test_point g) = DM_GRID_ELEMENTS"
    and "length (active_point g) = DM_GRID_ELEMENTS"
  shows "\<exists>g'. init_test_points R PSS_CIRCLE g = Some g'
     \<and> (\<forall>y<DM_GRID_DIMENSION. \<forall>x<DM_GRID_DIMENSION.
          test_point g' ! (y * DM_GRID_DIMENSION + x)
            = (- R + real x * (R / 2), R - real y * (R / 2))
          \<and> active_point g' ! (y * DM_GRID_DIMENSION + x) = circle_tag_amended R g' y x)"
proof -
  obtain g' where g': "init_test_points R PSS_CIRCLE g = Some g'"
    "test_point g' = grid_points R" "active_point g' = circle_tags"
    using init_test_points_circle [of R g] assms
    by (auto simp: DM_GRID_ELEMENTS_def DM_GRID_DIMENSION_def)
  show ?thesis
    using g' assms(1)
    by (auto simp: DM_GRID_DIMENSION_def grid_points_nth circle_tags_amended)
qed

lemma grid_100:
  "init_test_points 100 PSS_CIRCLE grid_blank = Some grid_100"
  "test_point grid_100 = grid_points 100"
  "active_point grid_100 = circle_tags"
proof -
  obtain g' where g': "init_test_points 100 PSS_CIRCLE grid_blank = Some g'"
    "test_point g' = grid_points 100" "active_point g' = circle_tags"
    using init_test_points_circle [of 100 grid_blank] by (auto simp: grid_blank_def)
  then have "grid_100 = g'" by (simp add: grid_100_def)
  then show "init_test_points 100 PSS_CIRCLE grid_blank = Some grid_100"
    "test_point grid_100 = grid_points 100"
    "active_point grid_100 = circle_tags"
    using g' by simp_all
qed

lemma origin_distance_100:
  "\<not> distance2D (0, 0) (- 100, 50) \<le> 100"
  "distance2D (0, 0) (- 100, 50) \<le> 150"
  "distance2D (0, 0) (0, 0) \<le> 100"
  by (simp_all add: origin_distance_le_iff)

text \<open>
  C3 as stated fails at radius 100 in two places: the point (-100, 50) of the leftmost
  column is farther out than the radius and is tagged ActiveNeighbor, where the claim has
  it Inactive; and the point at the origin is tagged Center, where the claim has it
  Active.
\<close>

theorem circle_tags_counterexample:
  "init_test_points 100 PSS_CIRCLE grid_blank = Some grid_100
   \<and> test_point grid_100 ! (1 * DM_GRID_DIMENSION + 0) = (- 100, 50)
   \<and> active_point grid_100 ! (1 * DM_GRID_DIMENSION + 0) = TP_ACTIVE_NEIGHBOR
   \<and> circle_tag_claimed 100 grid_100 1 0 = TP_INACTIVE
   \<and> test_point grid_100 ! (2 * DM_GRID_DIMENSION + 2) = (0, 0)
   \<and> active_point grid_100 ! (2 * DM_GRID_DIMENSION + 2) = TP_CENTER
   \<and> circle_tag_claimed 100 grid_100 2 2 = TP_ACTIVE"
  by (simp add: grid_100 circle_tag_claimed_def DM_GRID_DIMENSION_def grid_points_def
      row_points_def circle_tags_def circle_tags0_def origin_distance_100)

theorem init_test_points_circle_tags_witness:
  "(0 :: real) < 100
   \<and> length (test_point grid_blank) = DM_GRID_ELEMENTS
   \<and> length (active_point grid_blank) = DM_GRID_ELEMENTS
   \<and> init_test_points 100 PSS_CIRCLE grid_blank = Some grid_100
   \<and> test_point grid_100 ! (1 * DM_GRID_DIMENSION + 0) = (- 100, 50)
   \<and> active_point grid_100 ! (1 * DM_GRID_DIMENSION + 0) = circle_tag_amended 100 grid_100 1 0
   \<and> circle_tag_amended 100 grid_100 1 0 = TP_ACTIVE_NEIGHBOR"
proof -
  have len: "length (test_point grid_blank) = DM_GRID_ELEMENTS"
    "length (active_point grid_blank) = DM_GRID_ELEMENTS"
    by (simp_all add: grid_blank_def DM_GRID_ELEMENTS_def DM_GRID_DIMENSION_def)
  have "\<exists>g'. init_test_points 100 PSS_CIRCLE grid_blank = Some g'
     \<and> (\<forall>y<DM_GRID_DIMENSION. \<forall>x<DM_GRID_DIMENSION.
          test_point g' ! (y * DM_GRID_DIMENSION + x)
            = (- 100 + real x * (100 / 2), 100 - real y * (100 / 2))
          \<and> active_point g' ! (y * DM_GRID_DIMENSION + x) = circle_tag_amended 100 g' y x)"
    using init_test_points_circle_tags [of 100 grid_blank] len by simp
  then have all: "\<forall>y<DM_GRID_DIMENSION. \<forall>x<DM_GRID_DIMENSION.
          test_point grid_100 ! (y * DM_GRID_DIMENSION + x)
            = (- 100 + real x * (100 / 2), 100 - real y * (100 / 2))
          \<and> active_point grid_100 ! (y * DM_GRID_DIMENSION + x)
            = circle_tag_amended 100 grid_100 y x"
    by (auto simp: grid_100(1))
  have "1 < DM_GRID_DIMENSION" "0 < DM_GRID_DIMENSION"
    by (simp_all add: DM_GRID_DIMENSION_def)
  with all have p: "test_point grid_100 ! (1 * DM_GRID_DIMENSION + 0)
            = (- 100 + real (0 :: nat) * (100 / 2), 100 - real (1 :: nat) * (100 / 2))
          \<and> active_point grid_100 ! (1 * DM_GRID_DIMENSION + 0)
            = circle_tag_amended 100 grid_100 1 0"
    by blast
  then have "circle_tag_amended 100 grid_100 1 0 = TP_ACTIVE_NEIGHBOR"
    by (simp add: grid_100 DM_GRID_DIMENSION_def circle_tags_def circle_tags0_def)
  then show ?thesis
    using p len grid_100(1) by simp
qed


subsection \<open>The nearest test point\<close>

lemma le_distance2D_iff:
  assumes "0 \<le> r"
  shows "r \<le> distance2D p q \<longleftrightarrow> r\<^sup>2 \<le> (fst q - fst p)\<^sup>2 + (snd q - snd p)\<^sup>2"
proof
  assume "r \<le> distance2D p q"
  then have "r\<^sup>2 \<le> (distance2D p q)\<^sup>2"
    using assms by (simp add: power_mono)
  then show "r\<^sup>2 \<le> (fst q - fst p)\<^sup>2 + (snd q - snd p)\<^sup>2"
    by (simp add: distance2D_def)
next
  assume "r\<^sup>2 \<le> (fst q - fst p)\<^sup>2 + (snd q - snd p)\<^sup>2"
  then show "r \<le> distance2D p q"
    unfolding distance2D_def by (rule real_le_rsqrt)
qed

lemma distance2D_less_iff:
  "distance2D p q < distance2D p' q'
     \<longleftrightarrow> (fst q - fst p)\<^sup>2 + (snd q - snd p)\<^sup>2 < (fst q' - fst p')\<^sup>2 + (snd q' - snd p')\<^sup>2"
  by (simp add: distance2D_def)

text \<open>
  C9 as stated fails for a query far from the grid: on the initialised grid of radius 100,
  the query (2000, 0) is answered with index 0, a corner point tagged Inactive.
\<close>

theorem nearest_far_counterexample:
  "init_test_points 100 PSS_CIRCLE grid_blank = Some grid_100
   \<and> find_nearest_test_point grid_100 (2000, 0) = 0
   \<and> active_point grid_100 ! 0 = TP_INACTIVE"
proof -
  have "\<forall>j \<in> set [0..<25]. tagged grid_100 j \<longrightarrow>
      999 \<le> distance2D (2000, 0) (test_point grid_100 ! j)"
    unfolding upt25
    by (simp add: tagged_def grid_100 grid_points_def row_points_def circle_tags_def
        circle_tags0_def le_distance2D_iff)
  then have "find_nearest_test_point grid_100 (2000, 0) = 0"
    by (intro find_nearest_test_point_far) (simp add: DM_GRID_ELEMENTS_def DM_GRID_DIMENSION_def)
  then show ?thesis
    by (simp add: grid_100 circle_tags_def circle_tags0_def)
qed

text \<open>
  C9, amended. For every query coordinate that has some Active or Center point at a
  distance below 999, \<^verbatim>\<open>find_nearest_test_point\<close> returns a valid grid index whose point
  is tagged Active or Center, and no Active or Center point is closer to the query.
\<close>

theorem find_nearest_test_point_closest:
  assumes "\<exists>j<DM_GRID_ELEMENTS. tagged g j \<and> distance2D pos (test_point g ! j) < 999"
  shows "find_nearest_test_point g pos < DM_GRID_ELEMENTS
     \<and> (active_point g ! find_nearest_test_point g pos = TP_ACTIVE
          \<or> active_point g ! find_nearest_test_point g pos = TP_CENTER)
     \<and> (\<forall>i<DM_GRID_ELEMENTS.
           active_point g ! i = TP_ACTIVE \<or> active_point g ! i = TP_CENTER \<longrightarrow>
           distance2D pos (test_point g ! find_nearest_test_point g pos)
             \<le> distance2D pos (test_point g ! i))"
proof -
  obtain j where "j < DM_GRID_ELEMENTS" "tagged g j" "distance2D pos (test_point g ! j) < 999"
    using assms by blast
  then show ?thesis
    using find_nearest_test_point_near [of j g pos] by (simp add: tagged_def)
qed

theorem find_nearest_test_point_closest_witness:
  "(\<exists>j<DM_GRID_ELEMENTS. tagged grid_100 j \<and> distance2D (10, 10) (test_point grid_100 ! j) < 999)
   \<and> find_nearest_test_point grid_100 (10, 10) = 12
   \<and> active_point grid_100 ! 12 = TP_CENTER"
proof -
  have d12: "distance2D (10, 10) (test_point grid_100 ! 12) < 999"
    using le_distance2D_iff [of 999 "(10, 10)" "test_point grid_100 ! 12"]
    by (simp add: grid_100 grid_points_def row_points_def not_le [symmetric])
  have t12: "tagged grid_100 12"
    by (simp add: tagged_def grid_100 circle_tags_def circle_tags0_def)
  have hyp: "\<exists>j<DM_GRID_ELEMENTS. tagged grid_100 j
      \<and> distance2D (10, 10) (test_point grid_100 ! j) < 999"
    using d12 t12 by (intro exI [of _ 12]) (simp add: DM_GRID_ELEMENTS_def DM_GRID_DIMENSION_def)
  let ?r = "find_nearest_test_point grid_100 (10, 10)"
  have r: "?r < DM_GRID_ELEMENTS"
    "\<forall>i<DM_GRID_ELEMENTS.
        active_point grid_100 ! i = TP_ACTIVE \<or> active_point grid_100 ! i = TP_CENTER \<longrightarrow>
        distance2D (10, 10) (test_point grid_100 ! ?r)
          \<le> distance2D (10, 10) (test_point grid_100 ! i)"
    using find_nearest_test_point_closest [OF hyp] by blast+
  have "distance2D (10, 10) (test_point grid_100 ! ?r)
      \<le> distance2D (10, 10) (test_point grid_100 ! 12)"
  proof -
    have "12 < DM_GRID_ELEMENTS" by (simp add: DM_GRID_ELEMENTS_def DM_GRID_DIMENSION_def)
    then show ?thesis using r(2) t12 unfolding tagged_def by blast
  qed
  moreover have "\<forall>i \<in> set [0..<25]. i \<noteq> 12 \<longrightarrow>
      distance2D (10, 10) (test_point grid_100 ! 12) < distance2D (10, 10) (test_point grid_100 ! i)"
    unfolding upt25
    by (simp add: grid_100 grid_points_def row_points_def distance2D_less_iff)
  ultimately have "?r = 12"
    using r(1) by (fastforce simp: DM_GRID_ELEMENTS_def DM_GRID_DIMENSION_def)
  then show ?thesis
    using hyp by (simp add: grid_100 circle_tags_def circle_tags0_def)
qed

subsection \<open>The energy\<close>

lemma energy_fold:
  "fold (energy_step g cartesian) ns (mu, i)
     = (mu + (\<Sum>k \<leftarrow> filter (\<lambda>k. active_point g ! k = TP_ACTIVE) ns. \<bar>snd (snd (cartesian ! k))\<bar>),
        i + length (filter (\<lambda>k. active_point g ! k = TP_ACTIVE) ns))"
  by (induction ns arbitrary: mu i) (auto simp: energy_step_def)

lemma filter_upt_set:
  "set (filter (\<lambda>k. active_point g ! k = TP_ACTIVE) [0..<DM_GRID_ELEMENTS]) = Active_set g"
  by (auto simp: Active_set_def)

lemma energy_fold_set:
  "fold (energy_step g cartesian) [0..<DM_GRID_ELEMENTS] (0, 0)
     = ((\<Sum>k \<in> Active_set g. \<bar>snd (snd (cartesian ! k))\<bar>), card (Active_set g))"
proof -
  let ?xs = "filter (\<lambda>k. active_point g ! k = TP_ACTIVE) [0..<DM_GRID_ELEMENTS]"
  have d: "distinct ?xs" by simp
  have "(\<Sum>k \<leftarrow> ?xs. \<bar>snd (snd (cartesian ! k))\<bar>) = (\<Sum>k \<in> set ?xs. \<bar>snd (snd (cartesian ! k))\<bar>)"
    using d by (simp add: sum_list_distinct_conv_sum_set)
  moreover have "length ?xs = card (set ?xs)"
    using d distinct_card [of ?xs] by presburger
  ultimately show ?thesis
    unfolding energy_fold filter_upt_set by simp
qed

lemma calc_energy_mean:
  "calc_energy g cartesian =
     (if Active_set g = {} then None
      else Some ((\<Sum>k \<in> Active_set g. \<bar>snd (snd (cartesian ! k))\<bar>) / real (card (Active_set g))))"
proof -
  have "finite (Active_set g)" by (simp add: Active_set_def)
  then show ?thesis
    by (simp add: calc_energy_def energy_fold_set)
qed

lemma calc_energy_example: "calc_energy grid_100 cart_example = Some (1 / 10)"
  by (simp add: calc_energy_def DM_GRID_ELEMENTS_def DM_GRID_DIMENSION_def upt25
      energy_step_def grid_100 cart_example_def grid_points_def row_points_def
      circle_tags_def circle_tags0_def)

lemma init_test_points_has_active:
  assumes "0 < R" "length (test_point g) = 25" "length (active_point g) = 25"
  shows "\<exists>g'. init_test_points R PSS_CIRCLE g = Some g' \<and> Active_set g' \<noteq> {}"
proof -
  obtain g' where g': "init_test_points R PSS_CIRCLE g = Some g'" "active_point g' = circle_tags"
    using init_test_points_circle [OF assms] by blast
  have "2 \<in> Active_set g'"
    by (simp add: Active_set_def DM_GRID_ELEMENTS_def DM_GRID_DIMENSION_def g'(2)
        circle_tags_def circle_tags0_def)
  then show ?thesis using g'(1) by blast
qed

text \<open>
  C8. Whenever some grid point is tagged Active (as on every initialised grid),
  \<^verbatim>\<open>calc_energy\<close> returns the mean of the absolute relative heights over exactly the
  points tagged Active; that energy is non-negative, and it is 0 if and only if the
  relative depth of every Active point is 0.
\<close>

theorem calc_energy_mean_of_active:
  assumes "Active_set g \<noteq> {}"
  shows "\<exists>e. calc_energy g cartesian = Some e
     \<and> e = (\<Sum>k \<in> Active_set g. \<bar>snd (snd (cartesian ! k))\<bar>) / real (card (Active_set g))
     \<and> 0 \<le> e
     \<and> (e = 0 \<longleftrightarrow> (\<forall>k \<in> Active_set g. snd (snd (cartesian ! k)) = 0))"
proof -
  have fin: "finite (Active_set g)" by (simp add: Active_set_def)
  then have c: "0 < card (Active_set g)" using assms by (simp add: card_gt_0_iff)
  let ?s = "\<Sum>k \<in> Active_set g. \<bar>snd (snd (cartesian ! k))\<bar>"
  have nn: "0 \<le> ?s" by (simp add: sum_nonneg)
  have z: "?s = 0 \<longleftrightarrow> (\<forall>k \<in> Active_set g. snd (snd (cartesian ! k)) = 0)"
    using fin by (simp add: sum_nonneg_eq_0_iff)
  show ?thesis
    using assms c nn z by (simp add: calc_energy_mean)
qed

theorem calc_energy_mean_of_active_witness:
  "Active_set grid_100 \<noteq> {}
   \<and> calc_energy grid_100 cart_example = Some (1 / 10)
   \<and> (\<Sum>k \<in> Active_set grid_100. \<bar>snd (snd (cart_example ! k))\<bar>)
        / real (card (Active_set grid_100)) = 1 / 10
   \<and> \<not> (\<forall>k \<in> Active_set grid_100. snd (snd (cart_example ! k)) = 0)"
proof -
  have "2 \<in> Active_set grid_100"
    by (simp add: Active_set_def DM_GRID_ELEMENTS_def DM_GRID_DIMENSION_def grid_100
        circle_tags_def circle_tags0_def)
  then have ne: "Active_set grid_100 \<noteq> {}" by blast
  show ?thesis
    using calc_energy_mean_of_active [OF ne, of cart_example] ne calc_energy_example
    by auto
qed

subsection \<open>The Z correction\<close>

lemma scaler_100: "cartesian_to_array_scaler 100 = 1 / 50"
  by (simp add: cartesian_to_array_scaler_def DM_GRID_DIMENSION_def)

text \<open>
  C1 fails on the code. For the target (100, -100) on a platform of radius 100 the clamp
  leaves the target where it is, on the corner of the grid; the bounding box then starts
  at the last row and column, and of the four indices 24, 29, 25, 30 only the first lies
  within the 25 entries of the depth map: \<^verbatim>\<open>get_adjust_z\<close> reads out of bounds.
\<close>

theorem get_adjust_z_corner_out_of_bounds:
  "bili_indices 100 (cartesian_to_array_scaler 100) 100 (- 100) = (24, 29, 25, 30)
   \<and> int DM_GRID_ELEMENTS = 25
   \<and> length (st_depth st_example) = DM_GRID_ELEMENTS
   \<and> get_adjust_z 100 (cartesian_to_array_scaler 100) st_example 100 (- 100) = None"
  by (simp add: scaler_100 bili_indices_def bili_array_pos_def clamp_def get_adjust_z_def
      depth_read_def st_example_def DM_GRID_ELEMENTS_def DM_GRID_DIMENSION_def Let_def)

subsection \<open>Loading the depth map\<close>

lemma value_lines_Cons:
  "value_lines (raw # rest) =
     (if is_comment (chop_newline raw) then value_lines rest
      else chop_newline raw # value_lines rest)"
  by (simp add: value_lines_def)

lemma read_depth_map_result:
  assumes "i \<le> DM_GRID_ELEMENTS"
    and "read_depth_map atof strtof bufs i depth = (finished, i', depth')"
  shows "(finished \<longleftrightarrow>
           (\<forall>v \<in> set (take (DM_GRID_ELEMENTS - i) (value_lines bufs)). in_range (atof v)))
       \<and> (finished \<longrightarrow> i' = min (i + length (value_lines bufs)) DM_GRID_ELEMENTS)
       \<and> length depth' = length depth"
  using assms
proof (induction bufs arbitrary: i depth)
  case Nil
  then show ?case by (auto simp: value_lines_def)
next
  case (Cons raw rest)
  show ?case
  proof (cases "is_comment (chop_newline raw)")
    case True
    then show ?thesis
      using Cons.IH [of i depth] Cons.prems by (simp add: value_lines_Cons)
  next
    case False
    note nc = this
    show ?thesis
    proof (cases "i < DM_GRID_ELEMENTS")
      case True
      then obtain m where m: "DM_GRID_ELEMENTS - i = Suc m" "DM_GRID_ELEMENTS - (i + 1) = m"
        by (metis Suc_diff_Suc Suc_eq_plus1 diff_diff_left)
      show ?thesis
      proof (cases "in_range (atof (chop_newline raw))")
        case True
        have "read_depth_map atof strtof rest (i + 1) (depth[i := strtof (chop_newline raw)])
            = (finished, i', depth')"
          using Cons.prems(2) nc \<open>i < DM_GRID_ELEMENTS\<close> True
          by (simp add: in_range_def Let_def)
        then show ?thesis
          using Cons.IH [of "i + 1" "depth[i := strtof (chop_newline raw)]"]
            \<open>i < DM_GRID_ELEMENTS\<close> True nc m
          by (simp add: value_lines_Cons)
      next
        case False
        then have "\<not> finished"
          using Cons.prems(2) nc \<open>i < DM_GRID_ELEMENTS\<close>
          by (auto simp: in_range_def Let_def)
        moreover have "depth' = depth"
          using Cons.prems(2) nc \<open>i < DM_GRID_ELEMENTS\<close> False
          by (auto simp: in_range_def Let_def)
        ultimately show ?thesis
          using False nc m by (simp add: value_lines_Cons)
      qed
    next
      case False
      then have "i = DM_GRID_ELEMENTS" using Cons.prems(1) by simp
      then show ?thesis
        using Cons.IH [of i depth] Cons.prems nc by (simp add: value_lines_Cons)
    qed
  qed
qed

lemma set_virtual_shimming_depth_flags:
  "st_have_depth_map (snd (set_virtual_shimming x y z (g, st))) = st_have_depth_map st"
  "st_depth_enabled (snd (set_virtual_shimming x y z (g, st))) = st_depth_enabled st"
  by (simp_all add: set_virtual_shimming_def set_adjust_function_def Let_def
      split: prod.splits)

lemma shimming_block_depth_flags:
  "st_have_depth_map (snd (shimming_block gc (g, st))) = st_have_depth_map st"
  "st_depth_enabled (snd (shimming_block gc (g, st))) = st_depth_enabled st"
proof -
  obtain p1 p2 p3 where t: "tri_points g = (p1, p2, p3)"
    by (cases "tri_points g") auto
  obtain p1x p1y p1z where p1: "p1 = (p1x, p1y, p1z)" by (cases p1) auto
  obtain p2x p2y p2z where p2: "p2 = (p2x, p2y, p2z)" by (cases p2) auto
  obtain p3x p3y p3z where p3: "p3 = (p3x, p3y, p3z)" by (cases p3) auto
  have tp: "tri_points g = ((p1x, p1y, p1z), (p2x, p2y, p2z), (p3x, p3y, p3z))"
    by (simp add: t p1 p2 p3)
  have sv: "st_have_depth_map (snd (set_virtual_shimming x y z (g1, st1))) = st_have_depth_map st1"
    "st_depth_enabled (snd (set_virtual_shimming x y z (g1, st1))) = st_depth_enabled st1"
    for x y z g1 st1
    by (rule set_virtual_shimming_depth_flags)+
  show "st_have_depth_map (snd (shimming_block gc (g, st))) = st_have_depth_map st"
    using sv
    by (simp add: shimming_block_def tp Let_def set_adjust_function_def split_beta)
  show "st_depth_enabled (snd (shimming_block gc (g, st))) = st_depth_enabled st"
    using sv
    by (simp add: shimming_block_def tp Let_def set_adjust_function_def split_beta)
qed

lemma global_switch_block_depth_flags:
  "st_have_depth_map (global_switch_block gc st) = st_have_depth_map st"
  "st_depth_enabled (global_switch_block gc st) = st_depth_enabled st"
  by (simp_all add: global_switch_block_def set_adjust_function_def)

lemma depth_map_block_load:
  assumes "probe_offset_x = 0" "probe_offset_y = 0" "\<not> st_have_depth_map st"
    and "read_depth_map atof strtof bufs 0 (replicate DM_GRID_ELEMENTS 0) = (finished, i, depth')"
    and "depth_map_block gc True (Some bufs) atof strtof probe_offset_x probe_offset_y st = (ok, st')"
  shows "(\<not> finished \<longrightarrow> \<not> ok \<and> \<not> st_depth_enabled st')
       \<and> (finished \<and> i \<noteq> DM_GRID_ELEMENTS \<longrightarrow>
            ok \<and> \<not> st_have_depth_map st' \<and> \<not> st_depth_enabled st')
       \<and> (st_depth_enabled st' \<longrightarrow> finished \<and> i = DM_GRID_ELEMENTS \<and> get_value gc CHR ''E'' \<noteq> 0)"
proof -
  let ?st1 = "st\<lparr>st_depth := replicate DM_GRID_ELEMENTS 0\<rparr>"
  have blk: "depth_map_block gc True (Some bufs) atof strtof probe_offset_x probe_offset_y st =
      (if \<not> finished
       then (False, ?st1\<lparr>st_depth := depth', st_depth_enabled := False\<rparr>)
       else if i \<noteq> DM_GRID_ELEMENTS
       then (True, ?st1\<lparr>st_depth := depth', st_have_depth_map := False,
                        st_depth_enabled := False\<rparr>)
       else if get_value gc CHR ''E'' \<noteq> 0
       then (True, ?st1\<lparr>st_depth := depth', st_depth_enabled := True, st_active := True\<rparr>)
       else (True, ?st1\<lparr>st_depth := depth', st_depth_enabled := False\<rparr>))"
    using assms(1,2,3)
    by (simp add: depth_map_block_def initDepthMapRAM_def assms(4) set_adjust_function_def Let_def)
  show ?thesis
  proof (cases finished)
    case False
    then show ?thesis using assms(5) unfolding blk by auto
  next
    case True
    note fin = this
    show ?thesis
    proof (cases "i = DM_GRID_ELEMENTS")
      case False
      then show ?thesis using assms(5) assms(3) fin unfolding blk by auto
    next
      case True
      then show ?thesis using assms(5) fin unfolding blk by (cases "get_value gc CHR ''E'' = 0") auto
    qed
  qed
qed

lemma handle_shimming_E:
  assumes "has_letter gc CHR ''E''"
    and "handle_shimming_and_depth_correction gc alloc_ok file atof strtof
           probe_offset_x probe_offset_y (g, st) = (ok, g', st')"
  shows "\<exists>st2 st3. st_have_depth_map st2 = st_have_depth_map st
     \<and> depth_map_block gc alloc_ok file atof strtof probe_offset_x probe_offset_y st2 = (ok, st3)
     \<and> st_depth_enabled st' = st_depth_enabled st3
     \<and> st_have_depth_map st' = st_have_depth_map st3"
proof -
  obtain g2 st2 where sb: "shimming_block gc (g, st) = (g2, st2)"
    by (cases "shimming_block gc (g, st)")
  obtain ok3 st3 where db:
    "depth_map_block gc alloc_ok file atof strtof probe_offset_x probe_offset_y st2 = (ok3, st3)"
    by (cases "depth_map_block gc alloc_ok file atof strtof probe_offset_x probe_offset_y st2")
  have f: "st_have_depth_map st2 = st_have_depth_map st"
    using shimming_block_depth_flags(1) [of gc g st] sb by simp
  have "ok = ok3 \<and> st_depth_enabled st' = st_depth_enabled st3
     \<and> st_have_depth_map st' = st_have_depth_map st3"
    using assms
    by (auto simp: handle_shimming_and_depth_correction_def sb db
        global_switch_block_depth_flags split: if_splits)
  then show ?thesis using f db by blast
qed

text \<open>
  C10. For M667 E with zero probe offsets, no depth map loaded yet, memory for the map and
  a file that opens: the load runs to the end of the file exactly when every value it
  parses (the first N*N lines that are not comments) lies strictly between -5 and 5; a
  parsed value outside that interval makes the command return false with depth correction
  disabled; when the load runs to the end with a count of accepted values other than N*N,
  the have-depth-map flag is cleared and depth correction is disabled; and depth
  correction is enabled afterwards only if the load ran to the end with exactly N*N
  accepted values (and E is not zero).
\<close>

theorem depth_map_load_checked:
  assumes "has_letter gc CHR ''E''" "probe_offset_x = 0" "probe_offset_y = 0"
    and "\<not> st_have_depth_map st"
    and "read_depth_map atof strtof bufs 0 (replicate DM_GRID_ELEMENTS 0) = (finished, i, depth')"
    and "handle_shimming_and_depth_correction gc True (Some bufs) atof strtof
           probe_offset_x probe_offset_y (g, st) = (ok, g', st')"
  shows "(finished \<longleftrightarrow>
            (\<forall>v \<in> set (take DM_GRID_ELEMENTS (value_lines bufs)). - 5 < atof v \<and> atof v < 5))
       \<and> (finished \<longrightarrow> i = min (length (value_lines bufs)) DM_GRID_ELEMENTS)
       \<and> (\<not> finished \<longrightarrow> \<not> ok \<and> \<not> st_depth_enabled st')
       \<and> (finished \<and> i \<noteq> DM_GRID_ELEMENTS \<longrightarrow>
            ok \<and> \<not> st_have_depth_map st' \<and> \<not> st_depth_enabled st')
       \<and> (st_depth_enabled st' \<longrightarrow> finished \<and> i = DM_GRID_ELEMENTS \<and> get_value gc CHR ''E'' \<noteq> 0)"
proof -
  have "0 \<le> DM_GRID_ELEMENTS" by simp
  from read_depth_map_result [OF this assms(5)]
  have r1: "finished \<longleftrightarrow>
            (\<forall>v \<in> set (take DM_GRID_ELEMENTS (value_lines bufs)). - 5 < atof v \<and> atof v < 5)"
    and r2: "finished \<longrightarrow> i = min (length (value_lines bufs)) DM_GRID_ELEMENTS"
    unfolding in_range_def by simp_all
  obtain st2 st3 where b: "st_have_depth_map st2 = st_have_depth_map st"
    "depth_map_block gc True (Some bufs) atof strtof probe_offset_x probe_offset_y st2 = (ok, st3)"
    "st_depth_enabled st' = st_depth_enabled st3"
    "st_have_depth_map st' = st_have_depth_map st3"
    using handle_shimming_E [OF assms(1,6)] by blast
  have "\<not> st_have_depth_map st2" using b(1) assms(4) by simp
  from depth_map_block_load [OF assms(2,3) this assms(5) b(2)]
  have l: "\<not> finished \<longrightarrow> \<not> ok \<and> \<not> st_depth_enabled st'"
    "finished \<and> i \<noteq> DM_GRID_ELEMENTS \<longrightarrow>
            ok \<and> \<not> st_have_depth_map st' \<and> \<not> st_depth_enabled st'"
    "st_depth_enabled st' \<longrightarrow> finished \<and> i = DM_GRID_ELEMENTS \<and> get_value gc CHR ''E'' \<noteq> 0"
    unfolding b(3,4) by blast+
  show ?thesis
    using r1 r2 l by blast
qed

lemma read_file_corrupt:
  "read_depth_map atof_example atof_example file_corrupt 0 (replicate DM_GRID_ELEMENTS 0)
     = (False, 2, (replicate DM_GRID_ELEMENTS 0)[0 := 1 / 10, 1 := 1 / 10])"
  by (simp add: file_corrupt_def chop_newline_def is_comment_def atof_example_def
      DM_GRID_ELEMENTS_def DM_GRID_DIMENSION_def Let_def)

lemma read_value_lines:
  assumes "i + n \<le> DM_GRID_ELEMENTS"
  shows "read_depth_map atof_example atof_example (replicate n (''0.1'' @ [CHR 0x0A])) i depth
     = (True, i + n, fold (\<lambda>k d. d[k := 1 / 10]) [i..<i + n] depth)"
  using assms
proof (induction n arbitrary: i depth)
  case 0
  then show ?case by simp
next
  case (Suc n)
  have "[i..<i + Suc n] = i # [Suc i..<Suc i + n]"
    by (simp add: upt_rec)
  then show ?case
    using Suc.IH [of "Suc i" "depth[i := 1 / 10]"] Suc.prems
    by (simp add: chop_newline_def is_comment_def atof_example_def Let_def)
qed

lemma read_file_short:
  "fst (read_depth_map atof_example atof_example file_short 0 (replicate DM_GRID_ELEMENTS 0))
   \<and> fst (snd (read_depth_map atof_example atof_example file_short 0
        (replicate DM_GRID_ELEMENTS 0))) = 24"
  using read_value_lines [of 0 24 "replicate DM_GRID_ELEMENTS 0"]
  by (simp add: file_short_def chop_newline_def is_comment_def
      DM_GRID_ELEMENTS_def DM_GRID_DIMENSION_def)

theorem depth_map_load_checked_witness:
  "has_letter gcode_E1 CHR ''E'' \<and> \<not> st_have_depth_map st_unloaded
   \<and> \<not> fst (read_depth_map atof_example atof_example file_corrupt 0
          (replicate DM_GRID_ELEMENTS 0))
   \<and> \<not> fst (handle_shimming_and_depth_correction gcode_E1 True (Some file_corrupt)
          atof_example atof_example 0 0 (grid_100, st_unloaded))
   \<and> \<not> st_depth_enabled (snd (snd (handle_shimming_and_depth_correction gcode_E1 True
          (Some file_corrupt) atof_example atof_example 0 0 (grid_100, st_unloaded))))
   \<and> fst (snd (read_depth_map atof_example atof_example file_short 0
          (replicate DM_GRID_ELEMENTS 0))) = 24
   \<and> \<not> st_depth_enabled (snd (snd (handle_shimming_and_depth_correction gcode_E1 True
          (Some file_short) atof_example atof_example 0 0 (grid_100, st_unloaded))))
   \<and> \<not> st_have_depth_map (snd (snd (handle_shimming_and_depth_correction gcode_E1 True
          (Some file_short) atof_example atof_example 0 0 (grid_100, st_unloaded))))"
proof -
  have e: "has_letter gcode_E1 CHR ''E''" by (simp add: has_letter_def gcode_E1_def)
  have h: "\<not> st_have_depth_map st_unloaded" by (simp add: st_unloaded_def)
  have z: "(0 :: real) = 0" by simp
  let ?hc = "handle_shimming_and_depth_correction gcode_E1 True (Some file_corrupt)
          atof_example atof_example 0 0 (grid_100, st_unloaded)"
  let ?hs = "handle_shimming_and_depth_correction gcode_E1 True (Some file_short)
          atof_example atof_example 0 0 (grid_100, st_unloaded)"
  let ?rs = "read_depth_map atof_example atof_example file_short 0 (replicate DM_GRID_ELEMENTS 0)"
  have c: "\<not> fst ?hc \<and> \<not> st_depth_enabled (snd (snd ?hc))"
    using depth_map_load_checked [OF e z z h read_file_corrupt,
        of grid_100 "fst ?hc" "fst (snd ?hc)" "snd (snd ?hc)"]
    by simp
  have s: "\<not> st_depth_enabled (snd (snd ?hs)) \<and> \<not> st_have_depth_map (snd (snd ?hs))"
    using depth_map_load_checked [OF e z z h,
        of atof_example atof_example file_short "fst ?rs" "fst (snd ?rs)" "snd (snd ?rs)"
        grid_100 "fst ?hs" "fst (snd ?hs)" "snd (snd ?hs)"]
      read_file_short
    by (simp add: DM_GRID_ELEMENTS_def DM_GRID_DIMENSION_def)
  show ?thesis
    using e h c s read_file_corrupt read_file_short by simp
qed

subsection \<open>The directed binary search\<close>

lemma binsearch_loop_count:
  "j \<le> 250 \<Longrightarrow> fst (binsearch_loop energy w target j min_v max_v) \<le> 250"
proof (induction energy w target j min_v max_v rule: binsearch_loop.induct)
  case (1 energy w target j min_v max_v)
  show ?case
  proof (cases "j < 250 \<and> \<not> max_v - min_v \<le> target")
    case True
    then show ?thesis
      using "1.IH" by (subst binsearch_loop.simps) (simp add: Let_def)
  next
    case False
    then show ?thesis
      using "1.prems" by (subst binsearch_loop.simps) (auto simp: Let_def)
  qed
qed

lemma midpoint_within:
  fixes m :: real
  assumes "min_v \<le> m" "m \<le> max_v" "max_v - min_v \<le> target"
  shows "\<bar>(min_v + max_v) / 2 - m\<bar> \<le> target"
  using assms by argo

lemma narrow_max_keeps:
  fixes m :: real
  assumes "min_v \<le> m" "m \<le> max_v" "\<bar>min_v - m\<bar> < \<bar>max_v - m\<bar>" "p \<le> (max_v - min_v) / 2"
  shows "m \<le> max_v - p" and "min_v + max_v \<noteq> 2 * m"
  using assms by argo+

lemma narrow_min_keeps:
  fixes m :: real
  assumes "min_v \<le> m" "m \<le> max_v" "\<bar>max_v - m\<bar> < \<bar>min_v - m\<bar>" "p \<le> (max_v - min_v) / 2"
  shows "min_v + p \<le> m" and "min_v + max_v \<noteq> 2 * m"
  using assms by argo+

lemma equal_distance_midpoint:
  fixes m :: real
  assumes "min_v \<le> m" "m \<le> max_v" "\<not> \<bar>min_v - m\<bar> < \<bar>max_v - m\<bar>"
    "\<not> \<bar>max_v - m\<bar> < \<bar>min_v - m\<bar>"
  shows "min_v + max_v = 2 * m"
  using assms by argo

lemma midpoint_exact:
  fixes m :: real
  assumes "min_v + max_v = 2 * m" "0 \<le> target"
  shows "\<bar>(min_v + max_v) / 2 - m\<bar> \<le> target"
  using assms by simp

lemma binsearch_loop_midpoint:
  "(\<forall>x y. energy x < energy y \<longleftrightarrow> \<bar>x - m\<bar> < \<bar>y - m\<bar>) \<Longrightarrow> 0 \<le> w \<Longrightarrow> w \<le> 1 / 2 \<Longrightarrow>
     min_v \<le> m \<Longrightarrow> m \<le> max_v \<Longrightarrow> j \<le> 250 \<Longrightarrow>
     (max_v - min_v) * (1 - w) ^ (250 - j) \<le> target \<or> (min_v + max_v = 2 * m \<and> 0 \<le> target) \<Longrightarrow>
     binsearch_loop energy w target j min_v max_v = (j', min_v', max_v') \<Longrightarrow>
     \<bar>(min_v' + max_v') / 2 - m\<bar> \<le> target"
proof (induction energy w target j min_v max_v rule: binsearch_loop.induct)
  case (1 energy w target j min_v max_v)
  note sym = "1.prems"(1) and wlo = "1.prems"(2) and whi = "1.prems"(3)
    and lo = "1.prems"(4) and hi = "1.prems"(5) and jle = "1.prems"(6)
    and dis = "1.prems"(7) and eq = "1.prems"(8)
  have range: "0 \<le> max_v - min_v" using lo hi by simp
  have w1: "0 \<le> 1 - w" using whi by simp
  have tpos: "0 \<le> target"
  proof -
    have "0 \<le> (max_v - min_v) * (1 - w) ^ (250 - j)"
      using range w1 by simp
    then show ?thesis using dis by linarith
  qed
  show ?case
  proof (cases "j < 250")
    case False
    then have j: "j = 250" using jle by simp
    have res: "min_v' = min_v" "max_v' = max_v"
      using eq j by (simp_all add: binsearch_loop.simps)
    show ?thesis
      using dis lo hi j midpoint_within [of min_v m max_v target]
        midpoint_exact [of min_v max_v m target]
      unfolding res by auto
  next
    case True
    note jlt = this
    show ?thesis
    proof (cases "max_v - min_v \<le> target")
      case True
      have res: "min_v' = min_v" "max_v' = max_v"
        using eq jlt True by (simp_all add: binsearch_loop.simps Let_def)
      show ?thesis
        using lo hi True unfolding res by (rule midpoint_within)
    next
      case False
      define mx where "mx = (if energy min_v < energy max_v
                                  then max_v - ((max_v - min_v) * w) else max_v)"
      define mn where "mn = (if energy min_v > energy max_v
                                  then min_v + ((mx - min_v) * w) else min_v)"
      have "binsearch_loop energy w target j min_v max_v
          = binsearch_loop energy w target (j + 1) mn mx"
        using jlt False
        by (subst binsearch_loop.simps) (simp add: Let_def mx_def mn_def)
      then have rec: "binsearch_loop energy w target (j + 1) mn mx = (j', min_v', max_v')"
        using eq by simp
      have half: "(max_v - min_v) * w \<le> (max_v - min_v) / 2"
        using range whi mult_left_mono [of w "1 / 2" "max_v - min_v"] by simp
      have wpos: "0 \<le> (max_v - min_v) * w"
        using range wlo by simp
      have pw: "(1 - w) ^ (250 - j) = (1 - w) * (1 - w) ^ (250 - (j + 1))"
        using jlt by (metis Suc_diff_Suc Suc_eq_plus1 power_Suc)
      have inv: "mn \<le> m \<and> m \<le> mx
          \<and> ((mx - mn) * (1 - w) ^ (250 - (j + 1)) \<le> target \<or> (mn + mx = 2 * m \<and> 0 \<le> target))"
      proof (cases "energy min_v < energy max_v")
        case True
        then have d: "\<bar>min_v - m\<bar> < \<bar>max_v - m\<bar>" using sym by blast
        have mxv: "mx = max_v - (max_v - min_v) * w" "mn = min_v"
          using True by (simp_all add: mx_def mn_def)
        have "m \<le> mx" unfolding mxv using lo hi d half by (rule narrow_max_keeps)
        moreover have "mx - mn = (max_v - min_v) * (1 - w)"
          unfolding mxv by (simp add: algebra_simps)
        moreover have "\<not> (min_v + max_v = 2 * m)"
          using narrow_max_keeps(2) [OF lo hi d half] by simp
        ultimately show ?thesis
          using lo dis pw unfolding mxv(2) by (simp add: mult.assoc)
      next
        case False
        note nlt = this
        show ?thesis
        proof (cases "energy min_v > energy max_v")
          case True
          then have d: "\<bar>max_v - m\<bar> < \<bar>min_v - m\<bar>" using sym by blast
          have mxv: "mx = max_v" "mn = min_v + (max_v - min_v) * w"
            using True nlt by (simp_all add: mx_def mn_def)
          have "mn \<le> m" unfolding mxv using lo hi d half by (rule narrow_min_keeps)
          moreover have "mx - mn = (max_v - min_v) * (1 - w)"
            unfolding mxv by (simp add: algebra_simps)
          moreover have "\<not> (min_v + max_v = 2 * m)"
            using narrow_min_keeps(2) [OF lo hi d half] by simp
          ultimately show ?thesis
            using hi dis pw unfolding mxv(1) by (simp add: mult.assoc)
        next
          case False
          then have e: "\<not> \<bar>min_v - m\<bar> < \<bar>max_v - m\<bar>" "\<not> \<bar>max_v - m\<bar> < \<bar>min_v - m\<bar>"
            using nlt sym by blast+
          have mxv: "mx = max_v" "mn = min_v"
            using False nlt by (simp_all add: mx_def mn_def)
          have "min_v + max_v = 2 * m" using lo hi e by (rule equal_distance_midpoint)
          then show ?thesis
            using lo hi tpos unfolding mxv by simp
        qed
      qed
      show ?thesis
        using "1.IH" [OF jlt refl refl False refl refl sym wlo whi]
          inv rec jlt
        unfolding mx_def mn_def
        by simp
    qed
  qed
qed

lemma binsearch_loop_step:
  assumes "j < 250"
  shows "binsearch_loop energy w target j a b =
    (if b - a \<le> target then (j, a, b)
     else if energy a < energy b then binsearch_loop energy w target (j + 1) a (b - (b - a) * w)
     else if energy a > energy b then binsearch_loop energy w target (j + 1) (a + (b - a) * w) b
     else binsearch_loop energy w target (j + 1) a b)"
  using assms by (subst binsearch_loop.simps) (simp add: Let_def)

lemma binsearch_loop_stop: "binsearch_loop energy w target 250 a b = (250, a, b)"
  by (subst binsearch_loop.simps) simp

text \<open>
  C7, amended. For every energy that is a strictly increasing function of the distance
  from its minimum m (so that the bound with the worse energy is the bound farther from
  m), with m in [min, max], a width between 0 and 1/2, and a range that 250 narrowings
  bring within the target ((max - min) (1 - width)^250 <= target):
  \<^verbatim>\<open>find_optimal_config\<close> performs at most 250 iterations, and the midpoint it returns is
  within target of m. In each iteration it stops if max - min <= target, and otherwise
  narrows only the bound with the worse energy, by the width fraction of the range (no
  bound when the energies are equal).
\<close>

theorem find_optimal_config_converges:
  assumes "\<forall>x y. energy x < energy y \<longleftrightarrow> \<bar>x - m\<bar> < \<bar>y - m\<bar>"
    and "0 \<le> binsearch_width" "binsearch_width \<le> 1 / 2"
    and "min_v \<le> m" "m \<le> max_v"
    and "(max_v - min_v) * (1 - binsearch_width) ^ 250 \<le> target"
  shows "fst (binsearch_loop energy binsearch_width target 0 min_v max_v) \<le> 250
     \<and> \<bar>find_optimal_config energy min_v max_v binsearch_width target - m\<bar> \<le> target
     \<and> (\<forall>j a b. j < 250 \<longrightarrow>
          binsearch_loop energy binsearch_width target j a b =
            (if b - a \<le> target then (j, a, b)
             else if energy a < energy b
               then binsearch_loop energy binsearch_width target (j + 1) a
                      (b - (b - a) * binsearch_width)
             else if energy a > energy b
               then binsearch_loop energy binsearch_width target (j + 1)
                      (a + (b - a) * binsearch_width) b
             else binsearch_loop energy binsearch_width target (j + 1) a b))"
proof (intro conjI)
  show "fst (binsearch_loop energy binsearch_width target 0 min_v max_v) \<le> 250"
    by (rule binsearch_loop_count) simp
  obtain j' min_v' max_v'
    where r: "binsearch_loop energy binsearch_width target 0 min_v max_v = (j', min_v', max_v')"
    by (cases "binsearch_loop energy binsearch_width target 0 min_v max_v")
  have "\<bar>(min_v' + max_v') / 2 - m\<bar> \<le> target"
    using binsearch_loop_midpoint [OF assms(1-5) _ _ r] assms(6) by simp
  then show "\<bar>find_optimal_config energy min_v max_v binsearch_width target - m\<bar> \<le> target"
    by (simp add: find_optimal_config_def r)
  show "\<forall>j a b. j < 250 \<longrightarrow>
          binsearch_loop energy binsearch_width target j a b =
            (if b - a \<le> target then (j, a, b)
             else if energy a < energy b
               then binsearch_loop energy binsearch_width target (j + 1) a
                      (b - (b - a) * binsearch_width)
             else if energy a > energy b
               then binsearch_loop energy binsearch_width target (j + 1)
                      (a + (b - a) * binsearch_width) b
             else binsearch_loop energy binsearch_width target (j + 1) a b)"
    using binsearch_loop_step by blast
qed

lemma energy_vee_search:
  "binsearch_loop energy_vee (1 / 2) (5 / 1000) 0 0 3 = (10, 1023 / 1024, 513 / 512)"
  by (simp add: binsearch_loop_step energy_vee_def)

theorem find_optimal_config_converges_witness:
  "(\<forall>x y. energy_vee x < energy_vee y \<longleftrightarrow> \<bar>x - 1\<bar> < \<bar>y - 1\<bar>)
   \<and> (3 - 0) * (1 - 1 / 2) ^ 250 \<le> (5 / 1000 :: real)
   \<and> fst (binsearch_loop energy_vee (1 / 2) (5 / 1000) 0 0 3) = 10
   \<and> find_optimal_config energy_vee 0 3 (1 / 2) (5 / 1000) = 2049 / 2048
   \<and> \<bar>find_optimal_config energy_vee 0 3 (1 / 2) (5 / 1000) - 1\<bar> \<le> 5 / 1000"
proof -
  have sym: "\<forall>x y. energy_vee x < energy_vee y \<longleftrightarrow> \<bar>x - 1\<bar> < \<bar>y - 1\<bar>"
    by (simp add: energy_vee_def)
  have enough: "(3 - 0) * (1 - 1 / 2) ^ 250 \<le> (5 / 1000 :: real)"
    by (simp add: power_divide)
  have "\<bar>find_optimal_config energy_vee 0 3 (1 / 2) (5 / 1000) - 1\<bar> \<le> 5 / 1000"
    using find_optimal_config_converges [OF sym _ _ _ _ enough] by simp
  moreover have "find_optimal_config energy_vee 0 3 (1 / 2) (5 / 1000) = 2049 / 2048"
    "fst (binsearch_loop energy_vee (1 / 2) (5 / 1000) 0 0 3) = 10"
    unfolding find_optimal_config_def energy_vee_search by simp_all
  ultimately show ?thesis
    using sym enough by blast
qed

lemma energy_skew_unimodal: "unimodal_on energy_skew (- 5) 0 (- (49 / 10))"
  by (auto simp: unimodal_on_def energy_skew_def)

lemma energy_skew_search:
  "binsearch_loop energy_skew (1 / 2) (5 / 1000) 0 (- 5) 0 = (10, - (5 / 2), - (2555 / 1024))"
  by (simp add: binsearch_loop_step energy_skew_def)

text \<open>
  C7 as stated fails for a unimodal energy that is not symmetric: with the minimum at
  -4.9 in the range [-5, 0] (the endstop range), width 1/2 and target 0.005, the first
  step moves the lower bound past the minimum, and the search returns about -2.4976.
\<close>

theorem find_optimal_config_skew_counterexample:
  "unimodal_on energy_skew (- 5) 0 (- (49 / 10))
   \<and> find_optimal_config energy_skew (- 5) 0 (1 / 2) (5 / 1000) = - (5115 / 2048)
   \<and> \<not> \<bar>find_optimal_config energy_skew (- 5) 0 (1 / 2) (5 / 1000) - (- (49 / 10))\<bar> \<le> 5 / 1000"
proof -
  have "find_optimal_config energy_skew (- 5) 0 (1 / 2) (5 / 1000) = - (5115 / 2048)"
    unfolding find_optimal_config_def energy_skew_search by simp
  then show ?thesis
    using energy_skew_unimodal by simp
qed

subsection \<open>The redistribution step\<close>

lemma upt3: "[0..<3] = [0, 1, 2]"
  by (simp add: upt_rec)

lemma binsearch_loop_flat:
  assumes "energy a = energy b" "\<not> b - a \<le> target" "j \<le> 250"
  shows "binsearch_loop energy w target j a b = (250, a, b)"
  using assms
proof (induction "250 - j" arbitrary: j)
  case 0
  then have "j = 250" by simp
  then show ?case by (simp add: binsearch_loop_stop)
next
  case (Suc n)
  then have j: "j < 250" and n: "n = 250 - (j + 1)" by simp_all
  have "binsearch_loop energy w target j a b = binsearch_loop energy w target (j + 1) a b"
    using Suc.prems(1,2) by (simp add: binsearch_loop_step [OF j])
  also have "\<dots> = (250, a, b)"
    using Suc.hyps(1) [OF n Suc.prems(1,2)] j by simp
  finally show ?case .
qed

lemma find_optimal_config3_flat:
  "find_optimal_config3 energy_flat values k (- 3) 3 w (5 / 1000) = 0"
proof -
  have "binsearch_loop (\<lambda>v. energy_flat (values[k := v])) w (5 / 1000) 0 (- 3) 3 = (250, - 3, 3)"
    by (rule binsearch_loop_flat) (simp_all add: energy_flat_def)
  then show ?thesis
    by (simp add: find_optimal_config3_def find_optimal_config_def)
qed

lemma anneal_offsets_flat:
  "anneal_offsets energy_flat rnd_zero (- 3) 3 w temp (5 / 1000) 2 [1, 2, 3]
     = [999 / 1000, 1999 / 1000, 2999 / 1000]"
  unfolding anneal_offsets_def upt3 find_optimal_config3_flat Let_def
  by (simp add: move_randomly_towards_def rnd_zero_def Let_def)

lemma lowest_tower_radius_cases:
  assumes "length tr = 3"
  shows "lowest_tower_radius tr \<in> set tr \<or> lowest_tower_radius tr = 999"
proof -
  obtain a b c where tr: "tr = [a, b, c]"
    using assms by (auto simp: length_Suc_conv eval_nat_numeral)
  show ?thesis
    unfolding tr lowest_tower_radius_def upt3 by simp
qed

lemma lowest_tower_radius_nonneg:
  assumes "length tr = 3" "\<forall>v \<in> set tr. 0 \<le> v" "\<exists>v \<in> set tr. v \<le> 999"
  shows "lowest_tower_radius tr = smallest_magnitude tr"
proof -
  obtain a b c where tr: "tr = [a, b, c]"
    using assms(1) by (auto simp: length_Suc_conv eval_nat_numeral)
  show ?thesis
    using assms(2,3) unfolding tr lowest_tower_radius_def smallest_magnitude_def upt3
    by auto
qed

lemma subtract_lowest:
  assumes "length tr = 3"
  shows "fold (\<lambda>k t. t[k := t ! k - lowest]) [0..<3] tr = map (\<lambda>v. v - lowest) tr"
proof -
  obtain a b c where tr: "tr = [a, b, c]"
    using assms by (auto simp: length_Suc_conv eval_nat_numeral)
  show ?thesis
    unfolding tr upt3 by simp
qed

lemma anneal_offsets_length:
  "length (anneal_offsets energy rnd lo hi w temp target od values) = length values"
  unfolding anneal_offsets_def upt3 by (simp add: Let_def)

text \<open>
  C4, amended. In the inner loop only the tower radius group redistributes: after its
  three per-tower offsets are adjusted, one common value is subtracted from all three and
  added to the delta radius, and when the adjusted offsets are all non-negative and at
  least one of them is at most 999 that value is the offset of smallest absolute
  magnitude, so that the step is the redistribution of the specification. The arm length
  is not touched. The tower angle group adjusts its three offsets and redistributes
  nothing: neither the arm length nor the delta radius changes.
\<close>

theorem redistribution_radius_only:
  assumes "length (tower_radius cur) = 3"
    and "adj = anneal_offsets energy rnd (- 3) 3 binsearch_width (temp * annealing_temp_mul)
                 target overrun_divisor (tower_radius cur)"
    and "cur' = delta_radius_group energy rnd binsearch_width temp annealing_temp_mul
                  target overrun_divisor cur"
    and "cur'' = tower_angle_group energy' rnd' binsearch_width temp endstop_annealing_temp_mul
                   target overrun_divisor cur"
  shows "(\<exists>lowest. tower_radius cur' = map (\<lambda>v. v - lowest) adj
            \<and> delta_radius cur' = delta_radius cur + lowest
            \<and> ((\<forall>v \<in> set adj. 0 \<le> v) \<and> (\<exists>v \<in> set adj. v \<le> 999) \<longrightarrow>
                   lowest = smallest_magnitude adj))
     \<and> ((\<forall>v \<in> set adj. 0 \<le> v) \<and> (\<exists>v \<in> set adj. v \<le> 999) \<longrightarrow>
            (tower_radius cur', delta_radius cur') = redistribution_claimed adj (delta_radius cur))
     \<and> arm_length cur' = arm_length cur
     \<and> tower_angle cur'' = anneal_offsets energy' rnd' (- 3) 3 binsearch_width
            (temp * endstop_annealing_temp_mul) target overrun_divisor (tower_angle cur)
     \<and> arm_length cur'' = arm_length cur
     \<and> delta_radius cur'' = delta_radius cur"
proof -
  have len: "length adj = 3"
    using assms(1) by (simp add: assms(2) anneal_offsets_length)
  have tr: "tower_radius cur' = map (\<lambda>v. v - lowest_tower_radius adj) adj"
    and dr: "delta_radius cur' = delta_radius cur + lowest_tower_radius adj"
    and al: "arm_length cur' = arm_length cur"
    unfolding assms(3) delta_radius_group_def Let_def assms(2) [symmetric]
    by (simp_all add: subtract_lowest [OF len])
  have nn: "(\<forall>v \<in> set adj. 0 \<le> v) \<and> (\<exists>v \<in> set adj. v \<le> 999) \<longrightarrow>
              lowest_tower_radius adj = smallest_magnitude adj"
    using lowest_tower_radius_nonneg [OF len] by blast
  have first: "\<exists>lowest. tower_radius cur' = map (\<lambda>v. v - lowest) adj
            \<and> delta_radius cur' = delta_radius cur + lowest
            \<and> ((\<forall>v \<in> set adj. 0 \<le> v) \<and> (\<exists>v \<in> set adj. v \<le> 999) \<longrightarrow>
                   lowest = smallest_magnitude adj)"
    using tr dr nn by blast
  have second: "(\<forall>v \<in> set adj. 0 \<le> v) \<and> (\<exists>v \<in> set adj. v \<le> 999) \<longrightarrow>
            (tower_radius cur', delta_radius cur') = redistribution_claimed adj (delta_radius cur)"
    using tr dr nn by (simp add: redistribution_claimed_def)
  have angle: "tower_angle cur'' = anneal_offsets energy' rnd' (- 3) 3 binsearch_width
            (temp * endstop_annealing_temp_mul) target overrun_divisor (tower_angle cur)"
    "arm_length cur'' = arm_length cur" "delta_radius cur'' = delta_radius cur"
    unfolding assms(4) tower_angle_group_def by simp_all
  show ?thesis
    using first second al angle by blast
qed

lemma delta_radius_group_example:
  "delta_radius_group energy_flat rnd_zero (1 / 10) (35 / 100) 1 (5 / 1000) 2 cur_example
     = cur_example\<lparr>tower_radius := [0, 1, 2], delta_radius := 130 + 999 / 1000\<rparr>"
proof -
  have tr: "tower_radius cur_example = [1, 2, 3]" by (simp add: cur_example_def)
  show ?thesis
    unfolding delta_radius_group_def tr anneal_offsets_flat Let_def
    by (simp add: lowest_tower_radius_def upt3 cur_example_def)
qed

lemma tower_angle_group_example:
  "tower_angle_group energy_flat rnd_zero (1 / 10) (35 / 100) 1 (5 / 1000) 2 cur_example
     = cur_example\<lparr>tower_angle := [999 / 1000, 1999 / 1000, 2999 / 1000]\<rparr>"
proof -
  have ta: "tower_angle cur_example = [1, 2, 3]" by (simp add: cur_example_def)
  show ?thesis
    unfolding tower_angle_group_def ta anneal_offsets_flat by simp
qed

lemma anneal_offsets_negative:
  "anneal_offsets energy_flat rnd_zero (- 3) 3 w temp (5 / 1000) 2 [- 1, 0, 2]
     = [- (999 / 1000), 0, 1999 / 1000]"
  unfolding anneal_offsets_def upt3 find_optimal_config3_flat Let_def
  by (simp add: move_randomly_towards_def rnd_zero_def Let_def)

lemma anneal_offsets_far:
  "anneal_offsets energy_flat rnd_zero (- 3) 3 w temp (5 / 1000) 2
       [1000001 / 1000, 1000001 / 1000, 1000001 / 1000]
     = [1000, 1000, 1000]"
  unfolding anneal_offsets_def upt3 find_optimal_config3_flat Let_def
  by (simp add: move_randomly_towards_def rnd_zero_def Let_def)

lemma delta_radius_group_negative:
  "delta_radius_group energy_flat rnd_zero (1 / 10) (35 / 100) 1 (5 / 1000) 2 cur_negative
     = cur_negative\<lparr>tower_radius := [0, 999 / 1000, 1499 / 500],
                     delta_radius := 130 - 999 / 1000\<rparr>"
proof -
  have tr: "tower_radius cur_negative = [- 1, 0, 2]" by (simp add: cur_negative_def)
  show ?thesis
    unfolding delta_radius_group_def tr anneal_offsets_negative Let_def
    by (simp add: lowest_tower_radius_def upt3 cur_negative_def cur_example_def)
qed

lemma delta_radius_group_far:
  "delta_radius_group energy_flat rnd_zero (1 / 10) (35 / 100) 1 (5 / 1000) 2 cur_far
     = cur_far\<lparr>tower_radius := [1, 1, 1], delta_radius := 130 + 999\<rparr>"
proof -
  have tr: "tower_radius cur_far = [1000001 / 1000, 1000001 / 1000, 1000001 / 1000]"
    by (simp add: cur_far_def)
  show ?thesis
    unfolding delta_radius_group_def tr anneal_offsets_far Let_def
    by (simp add: lowest_tower_radius_def upt3 cur_far_def cur_example_def)
qed

text \<open>
  C4 as stated fails in three ways. The tower angle group redistributes nothing: with
  adjusted angle offsets 0.999, 1.999 and 2.999 it leaves the offsets as they are and the
  arm length at 270, where the claimed redistribution gives offsets 0, 1, 2 and arm length
  270.999. In the tower radius group the scan for the lowest offset compares the
  magnitude of an offset with the signed running value, so that a negative offset, once
  picked, is never replaced: with adjusted offsets -0.999, 0 and 1.999 the group subtracts
  -0.999, giving offsets 0, 0.999, 2.998 and delta radius 129.001, where the offset of
  smallest magnitude is 0 and the claimed redistribution changes nothing. And the scan
  starts from 999: with three adjusted offsets of 1000 the group subtracts 999, giving
  offsets 1, 1, 1 and delta radius 1129, where the claimed redistribution gives offsets
  0, 0, 0 and delta radius 1130.
\<close>

theorem redistribution_counterexample:
  "anneal_offsets energy_flat rnd_zero (- 3) 3 (1 / 10) (35 / 100 * 1) (5 / 1000) 2
       (tower_angle cur_example) = [999 / 1000, 1999 / 1000, 2999 / 1000]
   \<and> tower_angle (tower_angle_group energy_flat rnd_zero (1 / 10) (35 / 100) 1 (5 / 1000) 2
         cur_example) = [999 / 1000, 1999 / 1000, 2999 / 1000]
   \<and> arm_length (tower_angle_group energy_flat rnd_zero (1 / 10) (35 / 100) 1 (5 / 1000) 2
         cur_example) = 270
   \<and> redistribution_claimed [999 / 1000, 1999 / 1000, 2999 / 1000] 270
       = ([0, 1, 2], 270 + 999 / 1000)
   \<and> anneal_offsets energy_flat rnd_zero (- 3) 3 (1 / 10) (35 / 100 * 1) (5 / 1000) 2
       (tower_radius cur_negative) = [- (999 / 1000), 0, 1999 / 1000]
   \<and> tower_radius (delta_radius_group energy_flat rnd_zero (1 / 10) (35 / 100) 1 (5 / 1000) 2
         cur_negative) = [0, 999 / 1000, 1499 / 500]
   \<and> delta_radius (delta_radius_group energy_flat rnd_zero (1 / 10) (35 / 100) 1 (5 / 1000) 2
         cur_negative) = 130 - 999 / 1000
   \<and> redistribution_claimed [- (999 / 1000), 0, 1999 / 1000] 130
       = ([- (999 / 1000), 0, 1999 / 1000], 130)
   \<and> anneal_offsets energy_flat rnd_zero (- 3) 3 (1 / 10) (35 / 100 * 1) (5 / 1000) 2
       (tower_radius cur_far) = [1000, 1000, 1000]
   \<and> tower_radius (delta_radius_group energy_flat rnd_zero (1 / 10) (35 / 100) 1 (5 / 1000) 2
         cur_far) = [1, 1, 1]
   \<and> delta_radius (delta_radius_group energy_flat rnd_zero (1 / 10) (35 / 100) 1 (5 / 1000) 2
         cur_far) = 130 + 999
   \<and> redistribution_claimed [1000, 1000, 1000] 130 = ([0, 0, 0], 130 + 1000)"
proof -
  have ta: "tower_angle cur_example = [1, 2, 3]" by (simp add: cur_example_def)
  have tn: "tower_radius cur_negative = [- 1, 0, 2]" by (simp add: cur_negative_def)
  have tf: "tower_radius cur_far = [1000001 / 1000, 1000001 / 1000, 1000001 / 1000]"
    by (simp add: cur_far_def)
  have a1: "anneal_offsets energy_flat rnd_zero (- 3) 3 (1 / 10) (35 / 100 * 1) (5 / 1000) 2
       (tower_angle cur_example) = [999 / 1000, 1999 / 1000, 2999 / 1000]"
    unfolding ta by (rule anneal_offsets_flat)
  have a2: "anneal_offsets energy_flat rnd_zero (- 3) 3 (1 / 10) (35 / 100 * 1) (5 / 1000) 2
       (tower_radius cur_negative) = [- (999 / 1000), 0, 1999 / 1000]"
    unfolding tn by (rule anneal_offsets_negative)
  have a3: "anneal_offsets energy_flat rnd_zero (- 3) 3 (1 / 10) (35 / 100 * 1) (5 / 1000) 2
       (tower_radius cur_far) = [1000, 1000, 1000]"
    unfolding tf by (rule anneal_offsets_far)
  have c1: "redistribution_claimed [999 / 1000, 1999 / 1000, 2999 / 1000] 270
       = ([0, 1, 2], 270 + 999 / 1000)"
    by (simp add: redistribution_claimed_def smallest_magnitude_def)
  have c2: "redistribution_claimed [- (999 / 1000), 0, 1999 / 1000] 130
       = ([- (999 / 1000), 0, 1999 / 1000], 130)"
    by (simp add: redistribution_claimed_def smallest_magnitude_def)
  have c3: "redistribution_claimed [1000, 1000, 1000] 130 = ([0, 0, 0], 130 + 1000)"
    by (simp add: redistribution_claimed_def smallest_magnitude_def)
  have g1: "tower_angle (tower_angle_group energy_flat rnd_zero (1 / 10) (35 / 100) 1 (5 / 1000) 2
         cur_example) = [999 / 1000, 1999 / 1000, 2999 / 1000]"
    "arm_length (tower_angle_group energy_flat rnd_zero (1 / 10) (35 / 100) 1 (5 / 1000) 2
         cur_example) = 270"
    unfolding tower_angle_group_example by (simp_all add: cur_example_def)
  have g2: "tower_radius (delta_radius_group energy_flat rnd_zero (1 / 10) (35 / 100) 1 (5 / 1000) 2
         cur_negative) = [0, 999 / 1000, 1499 / 500]"
    "delta_radius (delta_radius_group energy_flat rnd_zero (1 / 10) (35 / 100) 1 (5 / 1000) 2
         cur_negative) = 130 - 999 / 1000"
    unfolding delta_radius_group_negative by simp_all
  have g3: "tower_radius (delta_radius_group energy_flat rnd_zero (1 / 10) (35 / 100) 1 (5 / 1000) 2
         cur_far) = [1, 1, 1]"
    "delta_radius (delta_radius_group energy_flat rnd_zero (1 / 10) (35 / 100) 1 (5 / 1000) 2
         cur_far) = 130 + 999"
    unfolding delta_radius_group_far by simp_all
  show ?thesis
    using a1 a2 a3 c1 c2 c3 g1 g2 g3 by blast
qed

theorem redistribution_radius_only_witness:
  "length (tower_radius cur_example) = 3
   \<and> anneal_offsets energy_flat rnd_zero (- 3) 3 (1 / 10) (35 / 100 * 1) (5 / 1000) 2
       (tower_radius cur_example) = [999 / 1000, 1999 / 1000, 2999 / 1000]
   \<and> (0 :: real) \<le> 999 / 1000 \<and> (0 :: real) \<le> 1999 / 1000 \<and> (0 :: real) \<le> 2999 / 1000
   \<and> (999 / 1000 :: real) \<le> 999
   \<and> (tower_radius (delta_radius_group energy_flat rnd_zero (1 / 10) (35 / 100) 1 (5 / 1000) 2
          cur_example),
        delta_radius (delta_radius_group energy_flat rnd_zero (1 / 10) (35 / 100) 1 (5 / 1000) 2
          cur_example))
       = redistribution_claimed [999 / 1000, 1999 / 1000, 2999 / 1000] (delta_radius cur_example)
   \<and> tower_radius (delta_radius_group energy_flat rnd_zero (1 / 10) (35 / 100) 1 (5 / 1000) 2
          cur_example) = [0, 1, 2]
   \<and> arm_length (tower_angle_group energy_flat rnd_zero (1 / 10) (35 / 100) 1 (5 / 1000) 2
          cur_example) = arm_length cur_example"
proof -
  have tr: "tower_radius cur_example = [1, 2, 3]" by (simp add: cur_example_def)
  have len: "length (tower_radius cur_example) = 3" by (simp add: tr)
  have adj: "[999 / 1000, 1999 / 1000, 2999 / 1000] =
      anneal_offsets energy_flat rnd_zero (- 3) 3 (1 / 10) (35 / 100 * 1) (5 / 1000) 2
       (tower_radius cur_example)"
    unfolding tr by (rule anneal_offsets_flat [symmetric])
  have range: "(\<forall>v \<in> set [999 / 1000, 1999 / 1000, 2999 / 1000 :: real]. 0 \<le> v)
      \<and> (\<exists>v \<in> set [999 / 1000, 1999 / 1000, 2999 / 1000 :: real]. v \<le> 999)"
    by simp
  note t = redistribution_radius_only [OF len adj refl refl,
      of energy_flat rnd_zero "1"]
  have "(tower_radius (delta_radius_group energy_flat rnd_zero (1 / 10) (35 / 100) 1 (5 / 1000) 2
          cur_example),
        delta_radius (delta_radius_group energy_flat rnd_zero (1 / 10) (35 / 100) 1 (5 / 1000) 2
          cur_example))
       = redistribution_claimed [999 / 1000, 1999 / 1000, 2999 / 1000] (delta_radius cur_example)"
    using t range by blast
  moreover have "arm_length (tower_angle_group energy_flat rnd_zero (1 / 10) (35 / 100) 1
      (5 / 1000) 2 cur_example) = arm_length cur_example"
    using t by blast
  moreover have "tower_radius (delta_radius_group energy_flat rnd_zero (1 / 10) (35 / 100) 1
      (5 / 1000) 2 cur_example) = [0, 1, 2]"
    unfolding delta_radius_group_example by simp
  ultimately show ?thesis
    using len adj by simp
qed

end
